theory Spec2Isabelle
  imports Main "HOL-Library.Sublist"
begin

section \<open>Python values and errors\<close>

text \<open>
  The three pages are Python scripts that Streamlit runs from top to bottom on every
  interaction. Exceptions are values here: a computation returns \<open>pyerr + 'a\<close>, with
  \<open>Inl\<close> the exception that ends it.
\<close>

datatype pyerr =
    KeyError string
  | TypeError
  | ValueError
  | AttributeError
  | OverflowError
  | IndexError
  | AssertionError string
  | RemoteError string

definition and_then :: "pyerr + 'a \<Rightarrow> ('a \<Rightarrow> pyerr + 'b) \<Rightarrow> pyerr + 'b" where
  "and_then r f = (case r of Inl e \<Rightarrow> Inl e | Inr x \<Rightarrow> f x)"

text \<open>
  A list of computations evaluated left to right, as a list comprehension does: the
  first exception ends the whole comprehension.
\<close>

fun collect :: "(pyerr + 'a) list \<Rightarrow> pyerr + 'a list" where
  "collect [] = Inr []"
| "collect (r # rs) = and_then r (\<lambda>x. and_then (collect rs) (\<lambda>xs. Inr (x # xs)))"

text \<open>
  A float is its exact value: \<open>Finite s m e\<close> is \<open>(-1)^s * m * 2^e\<close> (every finite
  double has this shape, and the sign of zero is kept), beside the infinities and NaN.
  Strings are byte strings in UTF-8. Dictionaries are association lists in insertion
  order, which is the order \<open>items()\<close> and iteration give; their keys are strings and
  are assumed distinct, as in any Python dictionary.
\<close>

datatype pyfloat = Finite bool nat int | Infinity bool | NaN

datatype pyval =
    PNone
  | PStr string
  | PInt int
  | PFloat pyfloat
  | PDict "(string \<times> pyval) list"
  | PList "pyval list"

definition nl :: string where
  "nl = [CHR 0x0A]"

text \<open>The euro sign U+20AC, in UTF-8.\<close>

definition euro :: string where
  "euro = [CHR 0xE2, CHR 0x82, CHR 0xAC]"

fun join :: "string \<Rightarrow> string list \<Rightarrow> string" where
  "join sep [] = []"
| "join sep [x] = x"
| "join sep (x # y # ys) = x @ sep @ join sep (y # ys)"

subsection \<open>Subscription, \<open>items()\<close>, iteration, \<open>len\<close>\<close>

fun subscript :: "pyval \<Rightarrow> string \<Rightarrow> pyerr + pyval" where
  "subscript (PDict kvs) k = (case map_of kvs k of None \<Rightarrow> Inl (KeyError k) | Some v \<Rightarrow> Inr v)"
| "subscript v k = Inl TypeError"

fun items :: "pyval \<Rightarrow> pyerr + (string \<times> pyval) list" where
  "items (PDict kvs) = Inr kvs"
| "items v = Inl AttributeError"

text \<open>
  Iterating a string gives one-character strings; the model splits at bytes where Python
  splits at code points, which no caller here can tell apart (every element is a string).
\<close>

fun iterate :: "pyval \<Rightarrow> pyerr + pyval list" where
  "iterate (PList xs) = Inr xs"
| "iterate (PDict kvs) = Inr (map (\<lambda>kv. PStr (fst kv)) kvs)"
| "iterate (PStr s) = Inr (map (\<lambda>c. PStr [c]) s)"
| "iterate v = Inl TypeError"

definition is_continuation :: "char \<Rightarrow> bool" where
  "is_continuation c \<longleftrightarrow> (128::nat) \<le> of_char c \<and> (of_char c :: nat) < 192"

fun py_len :: "pyval \<Rightarrow> pyerr + nat" where
  "py_len (PDict kvs) = Inr (length kvs)"
| "py_len (PList xs) = Inr (length xs)"
| "py_len (PStr s) = Inr (length (filter (\<lambda>c. \<not> is_continuation c) s))"
| "py_len v = Inl TypeError"

subsection \<open>Decimal rendering\<close>

definition digit :: "nat \<Rightarrow> char" where
  "digit d = ''0123456789'' ! (d mod 10)"

fun show_nat :: "nat \<Rightarrow> string" where
  "show_nat n = (if n < 10 then [digit n] else show_nat (n div 10) @ [digit (n mod 10)])"

declare show_nat.simps [simp del]

definition show_int :: "int \<Rightarrow> string" where
  "show_int i = (if i < 0 then ''-'' @ show_nat (nat (- i)) else show_nat (nat i))"

text \<open>The thousands separator of the format option \<open>,\<close>: groups of three from the right.\<close>

fun group3 :: "string \<Rightarrow> string" where
  "group3 (a # b # c # d # rest) = a # b # c # CHR '','' # group3 (d # rest)"
| "group3 s = s"

definition commas :: "string \<Rightarrow> string" where
  "commas s = rev (group3 (rev s))"

subsection \<open>The format specifications \<open>.2f\<close> and \<open>,.2f\<close>\<close>

text \<open>
  Python renders a float in fixed notation from its exact binary value, rounded to the
  requested number of decimals with ties to even. An \<open>int\<close> is first converted to the
  nearest double (ties to even), which overflows from \<open>2^1024\<close> on.
\<close>

definition round_half_even :: "nat \<Rightarrow> nat \<Rightarrow> nat" where
  "round_half_even n d =
     (let q = n div d; r = n mod d
      in if d < 2 * r \<or> (2 * r = d \<and> odd q) then q + 1 else q)"

definition hundredths :: "nat \<Rightarrow> int \<Rightarrow> nat" where
  "hundredths m e =
     (if 0 \<le> e then m * 2 ^ nat e * 100 else round_half_even (m * 100) (2 ^ nat (- e)))"

definition fixed2 :: "bool \<Rightarrow> pyfloat \<Rightarrow> string" where
  "fixed2 grouped x =
     (case x of
        NaN \<Rightarrow> ''nan''
      | Infinity s \<Rightarrow> (if s then ''-inf'' else ''inf'')
      | Finite s m e \<Rightarrow>
          (let h = hundredths m e;
               whole = show_nat (h div 100)
           in (if s then ''-'' else '''')
              @ (if grouped then commas whole else whole)
              @ ''.'' @ [digit (h mod 100 div 10), digit (h mod 10)]))"

fun bit_length :: "nat \<Rightarrow> nat" where
  "bit_length n = (if n = 0 then 0 else Suc (bit_length (n div 2)))"

declare bit_length.simps [simp del]

definition float_of_int :: "int \<Rightarrow> pyerr + pyfloat" where
  "float_of_int i =
     (let a = nat \<bar>i\<bar>; k = bit_length a - 53; m = round_half_even a (2 ^ k)
      in if 2 ^ 1024 \<le> m * 2 ^ k then Inl OverflowError
         else Inr (Finite (i < 0) m (int k)))"

fun format_f2 :: "bool \<Rightarrow> pyval \<Rightarrow> pyerr + string" where
  "format_f2 grouped (PFloat x) = Inr (fixed2 grouped x)"
| "format_f2 grouped (PInt i) = and_then (float_of_int i) (\<lambda>x. Inr (fixed2 grouped x))"
| "format_f2 grouped (PStr s) = Inl ValueError"
| "format_f2 grouped v = Inl TypeError"

subsection \<open>\<open>str()\<close>\<close>

text \<open>
  An f-string field without a format specification renders its value with \<open>str()\<close>.
  For \<open>None\<close>, strings and integers that text is written out. For floats, dictionaries
  and lists it is Python's \<open>repr\<close> (shortest round-trip digits, quoting rules), which is
  taken as the parameter \<open>rp\<close>: a total function, since \<open>repr\<close> of these values never
  raises.
\<close>

fun py_str :: "(pyval \<Rightarrow> string) \<Rightarrow> pyval \<Rightarrow> string" where
  "py_str rp PNone = ''None''"
| "py_str rp (PStr s) = s"
| "py_str rp (PInt i) = show_int i"
| "py_str rp v = rp v"

section \<open>Identity Extractor: \<open>get_user_info\<close>\<close>

text \<open>
  \<open>st.context.headers\<close> is a mapping from header names to values; \<open>headers.get\<close>
  gives \<open>None\<close> for an absent header.
\<close>

type_synonym headers = "string \<Rightarrow> string option"

definition header_value :: "string option \<Rightarrow> pyval" where
  "header_value h = (case h of None \<Rightarrow> PNone | Some s \<Rightarrow> PStr s)"

definition get_user_info :: "headers \<Rightarrow> pyval" where
  "get_user_info hs =
     PDict [(''user_name'', header_value (hs ''X-Forwarded-Preferred-Username'')),
            (''user_email'', header_value (hs ''X-Forwarded-Email'')),
            (''user_id'', header_value (hs ''X-Forwarded-User''))]"

section \<open>Prompt Composer: \<open>build_system_prompt\<close>\<close>

text \<open>
  \<open>build_system_prompt\<close> (lines 76 to 106 of \<open>03_SimpleChat.py\<close>). First the rows of
  the two list sections, one per account and one per transaction; then the template,
  whose fields are read in the order in which they stand in it.
\<close>

definition account_line :: "string \<times> pyval \<Rightarrow> pyerr + string" where
  "account_line kv =
     and_then (format_f2 True (snd kv)) (\<lambda>amount.
       Inr (''- '' @ fst kv @ '': '' @ euro @ amount))"

definition transaction_line :: "(pyval \<Rightarrow> string) \<Rightarrow> nat \<times> pyval \<Rightarrow> pyerr + string" where
  "transaction_line rp it =
     and_then (subscript (snd it) ''merchant'') (\<lambda>merchant.
     and_then (subscript (snd it) ''amount'') (\<lambda>amount.
     and_then (format_f2 False amount) (\<lambda>amount_str.
       Inr (show_nat (fst it + 1) @ ''. '' @ py_str rp merchant @ '' - '' @ euro @ amount_str))))"

definition account_header :: string where
  "account_header = ''Account balances:'' @ nl"

definition transaction_header :: string where
  "transaction_header = ''Recent Transactions:'' @ nl"

definition build_system_prompt :: "(pyval \<Rightarrow> string) \<Rightarrow> pyval \<Rightarrow> pyerr + string" where
  "build_system_prompt rp user_info =
     and_then (subscript user_info ''accounts'') (\<lambda>accounts.
     and_then (items accounts) (\<lambda>account_items.
     and_then (collect (map account_line account_items)) (\<lambda>account_lines.
     and_then (subscript user_info ''recent_transactions'') (\<lambda>recent_transactions.
     and_then (iterate recent_transactions) (\<lambda>transactions.
     and_then (collect (map (transaction_line rp) (enumerate 0 transactions))) (\<lambda>transaction_lines.
     and_then (subscript user_info ''name'') (\<lambda>name.
     and_then (subscript user_info ''email'') (\<lambda>email.
     and_then (subscript user_info ''user_id'') (\<lambda>user_id.
     and_then (subscript user_info ''accounts'') (\<lambda>accounts2.
     and_then (py_len accounts2) (\<lambda>n_accounts.
     and_then (subscript user_info ''preferences'') (\<lambda>preferences.
     and_then (subscript preferences ''contact_method'') (\<lambda>contact_method.
     and_then (subscript user_info ''preferences'') (\<lambda>preferences2.
     and_then (subscript preferences2 ''budgeting_style'') (\<lambda>budgeting_style.
       Inr (nl
         @ ''You are a helpful assistant. Always respond clearly, concisely, and provide actionable information when appropriate.'' @ nl
         @ nl
         @ ''# User Information'' @ nl
         @ ''Name: '' @ py_str rp name @ nl
         @ ''Email: '' @ py_str rp email @ nl
         @ ''User ID: '' @ py_str rp user_id @ nl
         @ nl
         @ ''Number of banking accounts: '' @ show_nat n_accounts @ nl
         @ account_header
         @ join nl account_lines @ nl
         @ nl
         @ transaction_header
         @ join nl transaction_lines @ nl
         @ nl
         @ ''# Banking Preferences'' @ nl
         @ ''Preferred Contact Method: '' @ py_str rp contact_method @ nl
         @ ''Budgeting Style: '' @ py_str rp budgeting_style @ nl
         @ nl
         @ ''# Context for RAG'' @ nl
         @ ''You have access to the user's banking info above. When answering questions, reference this data when relevant. '' @ nl
         @ ''If the user asks about account balances, recent transactions, or budgeting advice, provide the info from above. '' @ nl
         @ ''Do not make up other sensitive data.'' @ nl))))))))))))))))"

section \<open>Data frames\<close>

text \<open>
  A query result is a pandas data frame: named columns and rows of cells, the cells
  being Python values (\<open>PNone\<close> for a missing value). Subscripting a frame or a row
  with a column it lacks raises \<open>KeyError\<close>; \<open>iloc[0]\<close> on an empty selection raises
  \<open>IndexError\<close>; plotly express raises \<open>ValueError\<close> for a column name that the
  frame lacks.
\<close>

record dataframe =
  columns :: "string list"
  rows :: "pyval list list"

fun index_of :: "string \<Rightarrow> string list \<Rightarrow> nat option" where
  "index_of name [] = None"
| "index_of name (c # cs) =
     (if c = name then Some 0 else map_option Suc (index_of name cs))"

definition cell_at :: "nat \<Rightarrow> pyval list \<Rightarrow> pyval" where
  "cell_at i r = (if i < length r then r ! i else PNone)"

definition column :: "dataframe \<Rightarrow> string \<Rightarrow> pyerr + pyval list" where
  "column df name =
     (case index_of name (columns df) of
        None \<Rightarrow> Inl (KeyError name)
      | Some i \<Rightarrow> Inr (map (cell_at i) (rows df)))"

definition row_value :: "string list \<Rightarrow> pyval list \<Rightarrow> string \<Rightarrow> pyerr + pyval" where
  "row_value cols r name =
     (case index_of name cols of None \<Rightarrow> Inl (KeyError name) | Some i \<Rightarrow> Inr (cell_at i r))"

definition set_column :: "dataframe \<Rightarrow> string \<Rightarrow> pyval list \<Rightarrow> dataframe" where
  "set_column df name vs =
     (case index_of name (columns df) of
        None \<Rightarrow> df\<lparr>columns := columns df @ [name], rows := map (\<lambda>(r, v). r @ [v]) (zip (rows df) vs)\<rparr>
      | Some i \<Rightarrow> df\<lparr>rows := map (\<lambda>(r, v). r[i := v]) (zip (rows df) vs)\<rparr>)"

definition iloc0 :: "'a list \<Rightarrow> pyerr + 'a" where
  "iloc0 xs = (case xs of [] \<Rightarrow> Inl IndexError | x # _ \<Rightarrow> Inr x)"

fun express_columns :: "dataframe \<Rightarrow> string list \<Rightarrow> pyerr + unit" where
  "express_columns df [] = Inr ()"
| "express_columns df (c # cs) =
     (if c \<in> set (columns df) then express_columns df cs else Inl ValueError)"

text \<open>
  Timestamps are nanoseconds since the epoch, \<open>None\<close> being \<open>NaT\<close>. The maximum of a
  column skips \<open>NaT\<close> and is \<open>NaT\<close> when nothing else is there; \<open>NaT\<close> equals nothing.
\<close>

definition latest :: "int option list \<Rightarrow> int option" where
  "latest ms =
     (case concat (map (\<lambda>m. case m of None \<Rightarrow> [] | Some t \<Rightarrow> [t]) ms) of
        [] \<Rightarrow> None
      | t # ts \<Rightarrow> Some (fold max ts t))"

definition rows_where :: "pyval list list \<Rightarrow> int option list \<Rightarrow> int option \<Rightarrow> pyval list list" where
  "rows_where rs ms m =
     map fst (filter (\<lambda>rm. m \<noteq> None \<and> snd rm = m) (zip rs ms))"

definition timestamp_cell :: "int option \<Rightarrow> pyval" where
  "timestamp_cell m = (case m of None \<Rightarrow> PNone | Some t \<Rightarrow> PInt t)"

section \<open>Session state, effects and the external services\<close>

text \<open>
  \<open>st.session_state\<close> belongs to one browser session and is shared by the pages of
  the app. Each page uses it as a bag of attributes; an attribute that was never set
  is \<open>None\<close> here, and reading it raises \<open>AttributeError\<close>.
\<close>

record message =
  role :: string
  content :: string

record session =
  messages :: "message list option"
  visibility :: "string option"
  disabled :: "bool option"

definition new_session :: session where
  "new_session = \<lparr>messages = None, visibility = None, disabled = None\<rparr>"

text \<open>The conversation a session holds: empty until a chat page has initialised it.\<close>

definition conversation :: "session \<Rightarrow> message list" where
  "conversation s = (case messages s of None \<Rightarrow> [] | Some ms \<Rightarrow> ms)"

text \<open>
  What the conversational agent sends back. \<open>agent.invoke\<close> returns the agent's state, a
  dictionary whose entry \<open>messages\<close> is a list of LangChain messages; the page also
  accepts any other object. Values of the dictionary are message lists or text;
  \<open>OtherMessage\<close> stands for every message class but \<open>AIMessage\<close> and
  \<open>HumanMessage\<close>, and \<open>ResultOther t\<close> for an object that is no dictionary and that
  \<open>str()\<close> renders as \<open>t\<close>.
\<close>

datatype lc_message = HumanMessage string | AIMessage string | OtherMessage string

datatype state_value = MessageList "lc_message list" | TextValue string

datatype agent_result = ResultDict "(string \<times> state_value) list" | ResultOther string

type_synonym agent = "lc_message list \<Rightarrow> pyerr + agent_result"

text \<open>
  Everything a page does to the outside, in the order in which it does it: widgets
  drawn, remote calls made, lines printed or logged.
\<close>

datatype event =
    LoggingBasicConfig
  | SetPageConfig string "string option"
  | Title string
  | ErrorBox string
  | Markdown string
  | SidebarMarkdown string
  | SidebarWrite pyval
  | ChatMessage string
  | ChatInput string
  | Print string
  | LogRecord string
  | IsEndpointSupported string
  | QueryEndpoint string "message list" nat string
  | NewGenieAgent string string string
  | AgentInvoke "lc_message list"
  | SdkConfig
  | SqlExecute string string string
  | SidebarTitle string
  | SidebarMultiselect string "pyval list" "pyval list"
  | Tabs "string list"
  | Subheader string
  | Metric string string
  | PlotlyChart string
  | Divider
  | Caption string
  | Expander string
  | ShowDataframe
  | WriteText string

text \<open>
  What a run of a page reads from outside the script: the process environment and the
  \<open>.env\<close> file, the request headers, the prompt the chat input returns when it is
  drawn (\<open>None\<close> when nothing was submitted), and the answers of the remote services.
  \<open>is_endpoint_supported\<close> and \<open>query_endpoint\<close> (module \<open>model_serving_utils\<close>) and
  \<open>GenieAgent\<close> (module \<open>genie_agent_local\<close>) are calls to remote services; each may
  raise. \<open>query_endpoint\<close> returns the reply message as a dictionary of texts. The
  three \<open>repr\<close> functions are Python's renderings of values that the pages only pass
  through. For the dashboard: \<open>sdk_config\<close> is \<open>Config()\<close> of the Databricks SDK
  (the host it finds, from the environment or a profile file, or the exception it
  raises), \<open>sql_execute\<close> the connection, the statement and the fetch, \<open>cached\<close>
  what \<open>st.cache_data\<close> still holds, \<open>multiselect\<close> the selection the side bar
  returns for the given options and default, and the rest the library calls whose
  results the page only displays: \<open>sorted\<close>, the sum of a column, \<open>pd.to_datetime\<close>
  cell by cell, \<open>format\<close> with a format specification, plotly's figures and
  \<open>st.dataframe\<close>.
\<close>

record world =
  environ :: "string \<Rightarrow> string option"
  dotenv :: "string \<Rightarrow> string option"
  request_headers :: headers
  is_endpoint_supported :: "string \<Rightarrow> pyerr + bool"
  query_endpoint :: "string \<Rightarrow> message list \<Rightarrow> nat \<Rightarrow> string \<Rightarrow> pyerr + (string \<times> string) list"
  genie_agent :: "string \<Rightarrow> string \<Rightarrow> string \<Rightarrow> pyerr + agent"
  chat_input :: "string option"
  py_repr :: "pyval \<Rightarrow> string"
  text_repr :: "string \<Rightarrow> string"
  message_repr :: "lc_message \<Rightarrow> string"
  sdk_config :: "pyerr + string"
  sql_execute :: "string \<Rightarrow> string \<Rightarrow> string \<Rightarrow> pyerr + dataframe"
  cached :: "string \<Rightarrow> dataframe option"
  py_sorted :: "pyval list \<Rightarrow> pyerr + pyval list"
  multiselect :: "pyval list \<Rightarrow> pyval list \<Rightarrow> pyval list"
  column_sum :: "pyval list \<Rightarrow> pyerr + pyval"
  to_datetime :: "pyval \<Rightarrow> pyerr + int option"
  format_value :: "string \<Rightarrow> pyval \<Rightarrow> pyerr + string"
  plotly_chart :: "string \<Rightarrow> dataframe \<Rightarrow> pyerr + unit"
  show_dataframe :: "dataframe \<Rightarrow> pyerr + unit"

subsection \<open>Scripts\<close>

text \<open>
  A script threads the session state and the trace of effects, and may end in an
  exception. What it did before the exception stays done: Streamlit shows the
  exception and keeps the session state as the script left it.
\<close>

record page =
  sess :: session
  trace :: "event list"

type_synonym 'a script = "page \<Rightarrow> page \<times> (pyerr + 'a)"

definition seq :: "'a script \<Rightarrow> ('a \<Rightarrow> 'b script) \<Rightarrow> 'b script" where
  "seq m f p = (case m p of (p', Inl e) \<Rightarrow> (p', Inl e) | (p', Inr x) \<Rightarrow> f x p')"

definition ret :: "'a \<Rightarrow> 'a script" where
  "ret x p = (p, Inr x)"

definition lift :: "pyerr + 'a \<Rightarrow> 'a script" where
  "lift r p = (p, r)"

definition emit :: "event \<Rightarrow> unit script" where
  "emit e p = (p\<lparr>trace := trace p @ [e]\<rparr>, Inr ())"

definition emit_all :: "event list \<Rightarrow> unit script" where
  "emit_all es p = (p\<lparr>trace := trace p @ es\<rparr>, Inr ())"

text \<open>\<open>os.getenv\<close>, and \<open>assert value, text\<close> on what it returned.\<close>

definition assert_set :: "string option \<Rightarrow> string \<Rightarrow> pyerr + string" where
  "assert_set v text =
     (case v of
        None \<Rightarrow> Inl (AssertionError text)
      | Some s \<Rightarrow> if s = [] then Inl (AssertionError text) else Inr s)"

text \<open>\<open>load_dotenv()\<close> adds the variables of the \<open>.env\<close> file that the environment lacks.\<close>

definition load_dotenv :: "world \<Rightarrow> string \<Rightarrow> string option" where
  "load_dotenv w k = (case environ w k of Some v \<Rightarrow> Some v | None \<Rightarrow> dotenv w k)"

text \<open>The accesses to \<open>st.session_state.messages\<close>.\<close>

definition init_messages :: "unit script" where
  "init_messages p =
     (case messages (sess p) of
        None \<Rightarrow> (p\<lparr>sess := (sess p)\<lparr>messages := Some []\<rparr>\<rparr>, Inr ())
      | Some ms \<Rightarrow> (p, Inr ()))"

definition get_messages :: "message list script" where
  "get_messages p =
     (case messages (sess p) of None \<Rightarrow> (p, Inl AttributeError) | Some ms \<Rightarrow> (p, Inr ms))"

definition append_message :: "message \<Rightarrow> unit script" where
  "append_message m p =
     (case messages (sess p) of
        None \<Rightarrow> (p, Inl AttributeError)
      | Some ms \<Rightarrow> (p\<lparr>sess := (sess p)\<lparr>messages := Some (ms @ [m])\<rparr>\<rparr>, Inr ()))"

text \<open>The loop that redraws the history: one chat bubble per stored message.\<close>

definition history_events :: "message list \<Rightarrow> event list" where
  "history_events ms = concat (map (\<lambda>m. [ChatMessage (role m), Markdown (content m)]) ms)"

definition show_history :: "unit script" where
  "show_history = seq get_messages (\<lambda>ms. emit_all (history_events ms))"

text \<open>A dictionary of texts, subscripted.\<close>

definition lookup :: "(string \<times> string) list \<Rightarrow> string \<Rightarrow> pyerr + string" where
  "lookup kvs k = (case map_of kvs k of None \<Rightarrow> Inl (KeyError k) | Some v \<Rightarrow> Inr v)"

section \<open>The page \<open>03_SimpleChat.py\<close>\<close>

definition serving_endpoint_message :: string where
  "serving_endpoint_message =
     ''Unable to determine serving endpoint to use for chatbot app. If developing locally, ''
     @ ''set the SERVING_ENDPOINT environment variable to the name of your serving endpoint. If ''
     @ ''deploying to a Databricks app, include a serving endpoint resource named ''
     @ [CHR 0x27] @ ''serving_endpoint'' @ [CHR 0x27] @ '' with CAN_QUERY permissions, as described in ''
     @ ''https://docs.databricks.com/aws/en/generative-ai/agent-framework/chat-app#deploy-the-databricks-app''"

definition chatbot_title :: string where
  "chatbot_title = [CHR 0xF0, CHR 0x9F, CHR 0xA7, CHR 0xB1] @ '' Chatbot App''"

definition unsupported_title :: string where
  "unsupported_title =
     [CHR 0xE2, CHR 0x9A, CHR 0xA0, CHR 0xEF, CHR 0xB8, CHR 0x8F] @ '' Unsupported Endpoint Type''"

definition unsupported_text :: "string \<Rightarrow> string" where
  "unsupported_text serving_endpoint =
     ''The endpoint `'' @ serving_endpoint @ ''` is not compatible with this basic chatbot template.'' @ nl @ nl
     @ ''This template only supports chat completions-compatible endpoints.'' @ nl @ nl
     @ [CHR 0xF0, CHR 0x9F, CHR 0x91, CHR 0x89]
     @ '' **For a richer chatbot template** that supports all conversational endpoints on Databricks, ''
     @ ''please see the [Databricks documentation](https://docs.databricks.com/aws/en/generative-ai/agent-framework/chat-app).''"

definition simple_example_text :: string where
  "simple_example_text =
     [CHR 0xE2, CHR 0x84, CHR 0xB9, CHR 0xEF, CHR 0xB8, CHR 0x8F] @ '' This is a simple example. See ''
     @ ''[Databricks docs](https://docs.databricks.com/aws/en/generative-ai/agent-framework/chat-app) ''
     @ ''for a more comprehensive example with streaming output and more.''"

definition init_visibility :: "unit script" where
  "init_visibility p =
     (case visibility (sess p) of
        None \<Rightarrow> (p\<lparr>sess := (sess p)\<lparr>visibility := Some ''visible'', disabled := Some False\<rparr>\<rparr>, Inr ())
      | Some v \<Rightarrow> (p, Inr ()))"

text \<open>
  The assistant's part of a turn (lines 113 to 126): the call of the endpoint with the
  whole history, the field \<open>content\<close> of its answer, and the append of the reply.
\<close>

definition chat_reply :: "world \<Rightarrow> string \<Rightarrow> string \<Rightarrow> unit script" where
  "chat_reply w serving_endpoint system_prompt =
     seq (emit (ChatMessage ''assistant'')) (\<lambda>_.
     seq get_messages (\<lambda>history.
     seq (emit (QueryEndpoint serving_endpoint history 400 system_prompt)) (\<lambda>_.
     seq (lift (query_endpoint w serving_endpoint history 400 system_prompt)) (\<lambda>response.
     seq (lift (lookup response ''content'')) (\<lambda>assistant_response.
     seq (emit (Markdown assistant_response)) (\<lambda>_.
     append_message \<lparr>role = ''assistant'', content = assistant_response\<rparr>))))))"

text \<open>
  The body of \<open>if prompt := st.chat_input(...)\<close> (lines 69 to 126), and the script as
  a whole. \<open>os.getenv\<close> reads the process environment as it is when the script runs.
\<close>

definition simple_chat_turn :: "world \<Rightarrow> string \<Rightarrow> string \<Rightarrow> unit script" where
  "simple_chat_turn w serving_endpoint prompt =
     seq (append_message \<lparr>role = ''user'', content = prompt\<rparr>) (\<lambda>_.
     seq (emit (ChatMessage ''user'')) (\<lambda>_.
     seq (emit (Markdown prompt)) (\<lambda>_.
     seq (lift (build_system_prompt (py_repr w) (get_user_info (request_headers w)))) (\<lambda>system_prompt.
     seq (emit (Print system_prompt)) (\<lambda>_.
     chat_reply w serving_endpoint system_prompt)))))"

definition simple_chat :: "world \<Rightarrow> unit script" where
  "simple_chat w =
     seq (emit LoggingBasicConfig) (\<lambda>_.
     seq (emit (SetPageConfig ''centered'' None)) (\<lambda>_.
     seq (lift (assert_set (environ w ''SERVING_ENDPOINT'') serving_endpoint_message)) (\<lambda>serving_endpoint.
     seq (emit (IsEndpointSupported serving_endpoint)) (\<lambda>_.
     seq (lift (is_endpoint_supported w serving_endpoint)) (\<lambda>endpoint_supported.
     seq init_visibility (\<lambda>_.
     seq (emit (Title chatbot_title)) (\<lambda>_.
     if \<not> endpoint_supported then
       seq (emit (ErrorBox unsupported_title)) (\<lambda>_.
       emit (Markdown (unsupported_text serving_endpoint)))
     else
       seq (emit (Markdown simple_example_text)) (\<lambda>_.
       seq init_messages (\<lambda>_.
       seq show_history (\<lambda>_.
       seq (emit (ChatInput ''What is up?'')) (\<lambda>_.
       case chat_input w of
         None \<Rightarrow> ret ()
       | Some prompt \<Rightarrow>
           if prompt = [] then ret () else simple_chat_turn w serving_endpoint prompt)))))))))))"

section \<open>The page \<open>04_GenieAI.py\<close>\<close>

definition sidebar_user_text :: string where
  "sidebar_user_text =
     nl @ [CHR 0xF0, CHR 0x9F, CHR 0x91, CHR 0xA4] @ '' **User information**  '' @ nl
     @ ''(Only available when the app is deployed)'' @ nl"

definition sidebar_about_text :: string where
  "sidebar_about_text =
     nl @ ''---'' @ nl
     @ [CHR 0xF0, CHR 0x9F, CHR 0x93, CHR 0xA6] @ '' **About this app**'' @ nl
     @ nl
     @ ''This page uses the **`databricks-langchain`** package.  '' @ nl
     @ nl
     @ [CHR 0xF0, CHR 0x9F, CHR 0x94, CHR 0x97] @ '' Useful links:  '' @ nl
     @ ''- [LangChain Databricks integration docs](https://python.langchain.com/docs/integrations/providers/databricks/)  '' @ nl
     @ ''- [PyPI package: databricks-langchain](https://pypi.org/project/databricks-langchain/)'' @ nl"

definition genie_id_message :: string where
  "genie_id_message = ''GENIE_ID must be set in app.yaml.''"

definition genie_description :: string where
  "genie_description = ''This Genie space has access to sales data in Europe''"

definition genie_placeholder :: string where
  "genie_placeholder = ''Ask me about data'' @ [CHR 0xE2, CHR 0x80, CHR 0xA6]"

text \<open>\<open>str(result)\<close>: a dictionary is rendered between braces, entry by entry.\<close>

fun value_str :: "world \<Rightarrow> state_value \<Rightarrow> string" where
  "value_str w (MessageList ms) = ''['' @ join '', '' (map (message_repr w) ms) @ '']''"
| "value_str w (TextValue t) = text_repr w t"

fun result_str :: "world \<Rightarrow> agent_result \<Rightarrow> string" where
  "result_str w (ResultDict kvs) =
     ''{'' @ join '', '' (map (\<lambda>kv. text_repr w (fst kv) @ '': '' @ value_str w (snd kv)) kvs) @ ''}''"
| "result_str w (ResultOther t) = t"

text \<open>
  \<open>[m for m in result["messages"] if isinstance(m, AIMessage)]\<close>, as the contents of
  the messages kept. Iterating a text gives its characters, none of them a message.
\<close>

fun ai_contents :: "state_value \<Rightarrow> string list" where
  "ai_contents (MessageList ms) =
     concat (map (\<lambda>m. case m of AIMessage c \<Rightarrow> [c] | _ \<Rightarrow> []) ms)"
| "ai_contents (TextValue t) = []"

text \<open>
  The reply picked from the result (lines 79 to 84): the last generated message, or the
  rendering of the whole result. Then the turn (lines 71 to 89) and the script.
\<close>

definition pick_reply :: "world \<Rightarrow> agent_result \<Rightarrow> string" where
  "pick_reply w result =
     (case result of
        ResultDict kvs \<Rightarrow>
          (case map_of kvs ''messages'' of
             Some v \<Rightarrow>
               (let ai_msgs = ai_contents v
                in if ai_msgs \<noteq> [] then last ai_msgs else result_str w result)
           | None \<Rightarrow> result_str w result)
      | ResultOther t \<Rightarrow> result_str w result)"

definition genie_turn :: "world \<Rightarrow> agent \<Rightarrow> string \<Rightarrow> unit script" where
  "genie_turn w agent prompt =
     seq (append_message \<lparr>role = ''user'', content = prompt\<rparr>) (\<lambda>_.
     seq (emit (ChatMessage ''user'')) (\<lambda>_.
     seq (emit (Markdown prompt)) (\<lambda>_.
     seq (emit (AgentInvoke [HumanMessage prompt])) (\<lambda>_.
     seq (lift (agent [HumanMessage prompt])) (\<lambda>result.
     seq (emit (ChatMessage ''assistant'')) (\<lambda>_.
     seq (emit (Markdown (pick_reply w result))) (\<lambda>_.
     append_message \<lparr>role = ''assistant'', content = pick_reply w result\<rparr>)))))))"

definition genie_ai :: "world \<Rightarrow> unit script" where
  "genie_ai w =
     seq (emit (SetPageConfig ''centered'' None)) (\<lambda>_.
     seq (emit LoggingBasicConfig) (\<lambda>_.
     seq (emit (SidebarMarkdown sidebar_user_text)) (\<lambda>_.
     seq (emit (SidebarWrite (get_user_info (request_headers w)))) (\<lambda>_.
     seq (emit (SidebarMarkdown sidebar_about_text)) (\<lambda>_.
     seq (lift (assert_set (load_dotenv w ''GENIE_ID'') genie_id_message)) (\<lambda>genie_id.
     seq (emit (NewGenieAgent genie_id ''Genie'' genie_description)) (\<lambda>_.
     seq (lift (genie_agent w genie_id ''Genie'' genie_description)) (\<lambda>agent.
     seq init_messages (\<lambda>_.
     seq show_history (\<lambda>_.
     seq (emit (ChatInput genie_placeholder)) (\<lambda>_.
     case chat_input w of
       None \<Rightarrow> ret ()
     | Some prompt \<Rightarrow> if prompt = [] then ret () else genie_turn w agent prompt)))))))))))"

section \<open>Sessions\<close>

text \<open>
  A session is a sequence of page runs, each a fresh run of one of the two chat
  scripts on the session state the run before left, with an empty trace.
\<close>

datatype page_name = SimpleChat | GenieAI

definition run_page :: "page_name \<Rightarrow> world \<Rightarrow> session \<Rightarrow> page \<times> (pyerr + unit)" where
  "run_page pg w s =
     (case pg of SimpleChat \<Rightarrow> simple_chat w | GenieAI \<Rightarrow> genie_ai w) \<lparr>sess = s, trace = []\<rparr>"

definition session_after :: "page_name \<times> world \<Rightarrow> session \<Rightarrow> session" where
  "session_after r s = sess (fst (run_page (fst r) (snd r) s))"

fun run_session :: "(page_name \<times> world) list \<Rightarrow> session \<Rightarrow> session" where
  "run_session [] s = s"
| "run_session (r # rs) s = run_session rs (session_after r s)"

section \<open>The page \<open>Dashboard.py\<close>\<close>

definition warehouse_message :: string where
  "warehouse_message = ''DATABRICKS_WAREHOUSE_ID must be set in app.yaml or .env''"

definition CATALOG :: string where
  "CATALOG = ''business_intelligence_systems''"

definition SCHEMA :: string where
  "SCHEMA = ''03_Gold_Retail_Banking''"

text \<open>
  \<open>sqlQuery\<close> (lines 23 to 33): the SDK configuration is read, a connection is opened
  to the warehouse named by the environment, the statement runs and its result comes
  back as a frame.
\<close>

definition sqlQuery :: "world \<Rightarrow> string \<Rightarrow> dataframe script" where
  "sqlQuery w query =
     seq (emit SdkConfig) (\<lambda>_.
     seq (lift (sdk_config w)) (\<lambda>host.
     let http_path = ''/sql/1.0/warehouses/''
           @ (case load_dotenv w ''DATABRICKS_WAREHOUSE_ID'' of None \<Rightarrow> ''None'' | Some v \<Rightarrow> v)
     in seq (emit (SqlExecute host http_path query)) (\<lambda>_.
        lift (sql_execute w host http_path query))))"

text \<open>
  \<open>@st.cache_data(ttl=300)\<close> on a function without arguments: when Streamlit still
  holds an entry for the function, the call returns it and the body does not run.
  Whether an entry is still held is Streamlit's decision, read from the world.
\<close>

definition cache_data :: "world \<Rightarrow> string \<Rightarrow> dataframe script \<Rightarrow> dataframe script" where
  "cache_data w name body = (case cached w name of Some df \<Rightarrow> ret df | None \<Rightarrow> body)"

definition get_demographics_geo :: "world \<Rightarrow> dataframe script" where
  "get_demographics_geo w =
     cache_data w ''get_demographics_geo''
       (sqlQuery w (nl @ ''    SELECT *'' @ nl
          @ ''    FROM '' @ CATALOG @ ''.'' @ SCHEMA @ ''.kpi_client_demographics_geographics'' @ nl
          @ ''    ''))"

definition get_card_distribution :: "world \<Rightarrow> dataframe script" where
  "get_card_distribution w =
     cache_data w ''get_card_distribution''
       (sqlQuery w (nl @ ''    SELECT '' @ nl
          @ ''        card_type, '' @ nl
          @ ''        COUNT(1) as card_count '' @ nl
          @ ''    FROM '' @ CATALOG @ ''.'' @ SCHEMA @ ''.kpi_client_card_profile'' @ nl
          @ ''    GROUP BY card_type'' @ nl
          @ ''    ORDER BY card_count DESC'' @ nl
          @ ''    ''))"

definition get_monthly_transactions :: "world \<Rightarrow> dataframe script" where
  "get_monthly_transactions w =
     cache_data w ''get_monthly_transactions''
       (sqlQuery w (nl @ ''    SELECT *'' @ nl
          @ ''    FROM '' @ CATALOG @ ''.'' @ SCHEMA @ ''.kpi_completedtrans_monthly'' @ nl
          @ ''    ORDER BY kpi_month'' @ nl
          @ ''    ''))"

definition get_crm_stats :: "world \<Rightarrow> dataframe script" where
  "get_crm_stats w =
     cache_data w ''get_crm_stats''
       (sqlQuery w (nl @ ''    SELECT *'' @ nl
          @ ''    FROM '' @ CATALOG @ ''.'' @ SCHEMA @ ''.crm_calls_by_hour'' @ nl
          @ ''    ORDER BY hour'' @ nl
          @ ''    ''))"

definition get_complaints_stats :: "world \<Rightarrow> dataframe script" where
  "get_complaints_stats w =
     cache_data w ''get_complaints_stats''
       (sqlQuery w (nl @ ''    SELECT *'' @ nl
          @ ''    FROM '' @ CATALOG @ ''.'' @ SCHEMA @ ''.crm_complaints_by_product'' @ nl
          @ ''    ORDER BY count DESC'' @ nl
          @ ''    ''))"

text \<open>
  The charts. The page reads the columns a chart is made of, which raises where one is
  missing; what is drawn from them (grouping, summing, sorting, the figure itself) is
  left to pandas and plotly, which get the frame and may raise for reasons of their own.
\<close>

definition draw :: "world \<Rightarrow> string \<Rightarrow> dataframe \<Rightarrow> unit script" where
  "draw w title df = seq (emit (PlotlyChart title)) (\<lambda>_. lift (plotly_chart w title df))"

definition grouped_chart :: "world \<Rightarrow> string \<Rightarrow> dataframe \<Rightarrow> string \<Rightarrow> string \<Rightarrow> unit script" where
  "grouped_chart w title df key val =
     seq (lift (column df key)) (\<lambda>_.
     seq (lift (column df val)) (\<lambda>_.
     draw w title df))"

definition express_chart :: "world \<Rightarrow> string \<Rightarrow> dataframe \<Rightarrow> string list \<Rightarrow> unit script" where
  "express_chart w title df cols =
     seq (lift (express_columns df cols)) (\<lambda>_. draw w title df)"

definition metric :: "world \<Rightarrow> string \<Rightarrow> string \<Rightarrow> string \<Rightarrow> pyerr + pyval \<Rightarrow> unit script" where
  "metric w label unit_sign spec v =
     seq (lift v) (\<lambda>x.
     seq (lift (format_value w spec x)) (\<lambda>text.
     emit (Metric label (unit_sign @ text))))"

definition tab_clients :: "world \<Rightarrow> dataframe \<Rightarrow> dataframe \<Rightarrow> unit script" where
  "tab_clients w df_demo_filtered df_cards =
     seq (emit (Subheader ''Client Demographics & Card Portfolio'')) (\<lambda>_.
     seq (metric w ''Total Clients (Selected States)'' '''' '',''
            (and_then (column df_demo_filtered ''client_count'') (column_sum w))) (\<lambda>_.
     seq (grouped_chart w ''Client Distribution by Age Group'' df_demo_filtered ''age_group'' ''client_count'') (\<lambda>_.
     seq (grouped_chart w ''Client Distribution by Gender'' df_demo_filtered ''sex'' ''client_count'') (\<lambda>_.
     seq (emit Divider) (\<lambda>_.
     seq (grouped_chart w ''Top States by Client Count'' df_demo_filtered ''state_name'' ''client_count'') (\<lambda>_.
     express_chart w ''Credit Card Portfolio Mix'' df_cards [''card_type'', ''card_count'', ''card_type'']))))))"

definition tab_trans :: "world \<Rightarrow> dataframe \<Rightarrow> unit script" where
  "tab_trans w df_trans0 =
     seq (emit (Subheader ''Financial Performance Over Time'')) (\<lambda>_.
     seq (lift (column df_trans0 ''kpi_month'')) (\<lambda>raw_months.
     seq (lift (collect (map (to_datetime w) raw_months))) (\<lambda>months.
     let df_trans = set_column df_trans0 ''kpi_month'' (map timestamp_cell months);
         latest_month = latest months
     in
     seq (lift (iloc0 (rows_where (rows df_trans) months latest_month))) (\<lambda>latest_data.
     seq (metric w ''Latest Monthly Volume'' ''$'' '',.0f''
            (row_value (columns df_trans) latest_data ''total_amount'')) (\<lambda>_.
     seq (metric w ''Latest Tx Count'' '''' '',''
            (row_value (columns df_trans) latest_data ''transaction_count'')) (\<lambda>_.
     seq (metric w ''Avg Ending Balance'' ''$'' '',.0f''
            (row_value (columns df_trans) latest_data ''average_ending_balance'')) (\<lambda>_.
     seq (lift (column df_trans ''kpi_month'')) (\<lambda>_.
     seq (lift (column df_trans ''total_amount'')) (\<lambda>_.
     seq (lift (column df_trans ''kpi_month'')) (\<lambda>_.
     seq (lift (column df_trans ''transaction_count'')) (\<lambda>_.
     seq (draw w ''Monthly Transaction Volume vs Count'' df_trans) (\<lambda>_.
     seq (express_chart w ''Average Account Balance Trends'' df_trans [''kpi_month'', ''average_ending_balance'']) (\<lambda>_.
     seq (emit (Expander ([CHR 0xF0, CHR 0x9F, CHR 0x94, CHR 0x8D] @ '' View Transaction Data''))) (\<lambda>_.
     seq (emit ShowDataframe) (\<lambda>_.
     lift (show_dataframe w df_trans))))))))))))))))"

definition tab_crm :: "world \<Rightarrow> dataframe \<Rightarrow> dataframe \<Rightarrow> unit script" where
  "tab_crm w df_crm_calls df_complaints =
     seq (emit (Subheader ''Customer Support Analysis'')) (\<lambda>_.
     seq (express_chart w ''Call Center Volume by Hour of Day'' df_crm_calls [''hour'', ''count'', ''average_time'']) (\<lambda>_.
     seq (emit (Caption ''Bar color indicates average call duration (seconds).'')) (\<lambda>_.
     seq (express_chart w ''Complaints by Product Category'' df_complaints [''count'', ''product'', ''count'']) (\<lambda>_.
     seq (emit (Expander ([CHR 0xF0, CHR 0x9F, CHR 0x94, CHR 0x8D] @ '' View CRM Source Data''))) (\<lambda>_.
     seq (emit (WriteText ''Calls by Priority'')) (\<lambda>_.
     seq (emit ShowDataframe) (\<lambda>_.
     lift (show_dataframe w df_crm_calls))))))))"

text \<open>The state filter: the rows whose state is among the selected ones, or all rows.\<close>

definition filter_states :: "dataframe \<Rightarrow> pyval list \<Rightarrow> pyerr + dataframe" where
  "filter_states df_demo selected_states =
     (if selected_states \<noteq> [] then
        and_then (column df_demo ''state_name'') (\<lambda>states.
          Inr (df_demo\<lparr>rows := map fst (filter (\<lambda>rs. snd rs \<in> set selected_states)
                                           (zip (rows df_demo) states))\<rparr>))
      else Inr df_demo)"

definition dashboard_title :: string where
  "dashboard_title = [CHR 0xF0, CHR 0x9F, CHR 0x8F, CHR 0xA6] @ '' Retail Banking Insights''"

definition dashboard_tabs :: "string list" where
  "dashboard_tabs =
     [[CHR 0xF0, CHR 0x9F, CHR 0x91, CHR 0xA5] @ '' Clients & Accounts'',
      [CHR 0xF0, CHR 0x9F, CHR 0x92, CHR 0xB3] @ '' Transaction Trends'',
      [CHR 0xF0, CHR 0x9F, CHR 0x93, CHR 0x9E] @ '' CRM & Support'']"

text \<open>The page after its start-up check: the five loads, the filter, the three tabs.\<close>

definition dashboard_body :: "world \<Rightarrow> unit script" where
  "dashboard_body w =
     seq (emit (SetPageConfig ''wide'' (Some ''Retail Banking Dashboard''))) (\<lambda>_.
     seq (emit (SidebarTitle ''Filters'')) (\<lambda>_.
     seq (get_demographics_geo w) (\<lambda>df_demo.
     seq (get_monthly_transactions w) (\<lambda>df_trans.
     seq (get_card_distribution w) (\<lambda>df_cards.
     seq (get_crm_stats w) (\<lambda>df_crm_calls.
     seq (get_complaints_stats w) (\<lambda>df_complaints.
     seq (lift (column df_demo ''state_name'')) (\<lambda>states.
     seq (lift (py_sorted w (remdups states))) (\<lambda>all_states.
     seq (emit (SidebarMultiselect ''Select States (Client View)'' all_states (take 5 all_states))) (\<lambda>_.
     seq (lift (filter_states df_demo (multiselect w all_states (take 5 all_states)))) (\<lambda>df_demo_filtered.
     seq (emit (Title dashboard_title)) (\<lambda>_.
     seq (emit (Markdown ''Overview of Client Demographics, Transaction Trends, and CRM Performance based on Gold Layer data.'')) (\<lambda>_.
     seq (emit (Tabs dashboard_tabs)) (\<lambda>_.
     seq (tab_clients w df_demo_filtered df_cards) (\<lambda>_.
     seq (tab_trans w df_trans) (\<lambda>_.
     tab_crm w df_crm_calls df_complaints))))))))))))))))"

definition dashboard :: "world \<Rightarrow> unit script" where
  "dashboard w =
     seq (lift (assert_set (load_dotenv w ''DATABRICKS_WAREHOUSE_ID'') warehouse_message)) (\<lambda>_.
     dashboard_body w)"

section \<open>What a run shows\<close>

text \<open>
  The statements below read a run from the outside: from the trace it left, the
  session state it left and the way it ended.
\<close>

fun is_chat_input :: "event \<Rightarrow> bool" where
  "is_chat_input (ChatInput placeholder) = True"
| "is_chat_input e = False"

fun is_endpoint_query :: "event \<Rightarrow> bool" where
  "is_endpoint_query (QueryEndpoint name history max_tokens system_prompt) = True"
| "is_endpoint_query e = False"

fun is_agent_invoke :: "event \<Rightarrow> bool" where
  "is_agent_invoke (AgentInvoke ms) = True"
| "is_agent_invoke e = False"

fun is_log_record :: "event \<Rightarrow> bool" where
  "is_log_record (LogRecord text) = True"
| "is_log_record e = False"

fun is_remote_call :: "event \<Rightarrow> bool" where
  "is_remote_call (IsEndpointSupported name) = True"
| "is_remote_call (QueryEndpoint name history max_tokens system_prompt) = True"
| "is_remote_call (NewGenieAgent genie_id name description) = True"
| "is_remote_call (AgentInvoke ms) = True"
| "is_remote_call SdkConfig = True"
| "is_remote_call (SqlExecute host path query) = True"
| "is_remote_call e = False"

text \<open>
  A user turn is submitted in a run when the run drew the chat input and the chat
  input returned a prompt (one that is not empty: the page tests its truth value).
\<close>

definition prompt_of :: "world \<Rightarrow> string option" where
  "prompt_of w =
     (case chat_input w of None \<Rightarrow> None | Some p \<Rightarrow> if p = [] then None else Some p)"

definition submitted :: "world \<Rightarrow> page \<times> (pyerr + unit) \<Rightarrow> string option" where
  "submitted w r = (if list_ex is_chat_input (trace (fst r)) then prompt_of w else None)"

text \<open>A turn received a reply when its run ended without an exception.\<close>

definition replied :: "world \<times> page \<times> (pyerr + unit) \<Rightarrow> bool" where
  "replied r \<longleftrightarrow> submitted (fst r) (snd r) \<noteq> None \<and> snd (snd r) = Inr ()"

definition unanswered :: "world \<times> page \<times> (pyerr + unit) \<Rightarrow> bool" where
  "unanswered r \<longleftrightarrow> submitted (fst r) (snd r) \<noteq> None \<and> snd (snd r) \<noteq> Inr ()"

definition turn_roles :: "world \<times> page \<times> (pyerr + unit) \<Rightarrow> string list" where
  "turn_roles r =
     (if replied r then [''user'', ''assistant'']
      else if unanswered r then [''user'']
      else [])"

definition turn_prompt :: "world \<times> page \<times> (pyerr + unit) \<Rightarrow> string list" where
  "turn_prompt r = (case submitted (fst r) (snd r) of None \<Rightarrow> [] | Some p \<Rightarrow> [p])"

definition user_prompts :: "message list \<Rightarrow> string list" where
  "user_prompts ms = map content (filter (\<lambda>m. role m = ''user'') ms)"

text \<open>The runs of a session with what each one read and how it ended.\<close>

fun run_results :: "(page_name \<times> world) list \<Rightarrow> session \<Rightarrow> (world \<times> page \<times> (pyerr + unit)) list" where
  "run_results [] s = []"
| "run_results (r # rs) s =
     (snd r, run_page (fst r) (snd r) s) # run_results rs (session_after r s)"

text \<open>
  A snapshot with the scalar fields the prompt names, and with an empty mapping of
  accounts and an empty sequence of transactions.
\<close>

definition succeeds :: "pyerr + 'a \<Rightarrow> bool" where
  "succeeds r = (case r of Inl e \<Rightarrow> False | Inr x \<Rightarrow> True)"

definition has_profile :: "pyval \<Rightarrow> bool" where
  "has_profile ui \<longleftrightarrow>
     succeeds (subscript ui ''name'') \<and> succeeds (subscript ui ''email'')
     \<and> succeeds (subscript ui ''user_id'')
     \<and> succeeds (and_then (subscript ui ''preferences'') (\<lambda>p. subscript p ''contact_method''))
     \<and> succeeds (and_then (subscript ui ''preferences'') (\<lambda>p. subscript p ''budgeting_style''))"

definition no_accounts :: "pyval \<Rightarrow> bool" where
  "no_accounts ui \<longleftrightarrow> and_then (subscript ui ''accounts'') items = Inr []"

definition no_transactions :: "pyval \<Rightarrow> bool" where
  "no_transactions ui \<longleftrightarrow> and_then (subscript ui ''recent_transactions'') iterate = Inr []"

text \<open>
  A well-formed snapshot: the scalar fields, a mapping of accounts whose balances are
  numbers that \<open>,.2f\<close> can render, and a sequence of transactions that each have a
  merchant and an amount that \<open>.2f\<close> can render.
\<close>

definition priced :: "pyval \<Rightarrow> bool" where
  "priced t \<longleftrightarrow>
     succeeds (subscript t ''merchant'')
     \<and> succeeds (and_then (subscript t ''amount'') (format_f2 False))"

definition well_formed :: "pyval \<Rightarrow> bool" where
  "well_formed ui \<longleftrightarrow>
     has_profile ui
     \<and> (case and_then (subscript ui ''accounts'') items of
          Inl e \<Rightarrow> False
        | Inr kvs \<Rightarrow> list_all (\<lambda>kv. succeeds (format_f2 True (snd kv))) kvs)
     \<and> (case and_then (subscript ui ''recent_transactions'') iterate of
          Inl e \<Rightarrow> False
        | Inr ts \<Rightarrow> list_all priced ts)"

text \<open>The keys of its argument that the Prompt Composer reads.\<close>

definition prompt_keys :: "string list" where
  "prompt_keys = [''accounts'', ''recent_transactions'', ''name'', ''email'', ''user_id'', ''preferences'']"

text \<open>An identifier is missing when the variable is unset or set to the empty string.\<close>

definition missing :: "string option \<Rightarrow> bool" where
  "missing v \<longleftrightarrow> v = None \<or> v = Some []"

text \<open>What a loader of the dashboard returns, and whether it is a frame with given columns.\<close>

definition loaded :: "(world \<Rightarrow> dataframe script) \<Rightarrow> world \<Rightarrow> pyerr + dataframe" where
  "loaded loader w = snd (loader w \<lparr>sess = new_session, trace = []\<rparr>)"

definition has_columns :: "pyerr + dataframe \<Rightarrow> string list \<Rightarrow> bool" where
  "has_columns r cs = (case r of Inl e \<Rightarrow> False | Inr df \<Rightarrow> set cs \<subseteq> set (columns df))"

definition has_rows :: "pyerr + dataframe \<Rightarrow> bool" where
  "has_rows r = (case r of Inl e \<Rightarrow> False | Inr df \<Rightarrow> rows df \<noteq> [])"

section \<open>Sample worlds\<close>

text \<open>
  A world in which the pages get as far as they can: the identifiers are set, the
  endpoint is supported, the agent answers with a generated message, and Streamlit's
  cache holds five small frames.
\<close>

definition sample_frames :: "(string \<times> dataframe) list" where
  "sample_frames =
     [(''get_demographics_geo'',
         \<lparr>columns = [''state_name'', ''age_group'', ''sex'', ''client_count''],
          rows = [[PStr ''Bavaria'', PStr ''30-39'', PStr ''F'', PInt 12],
                  [PStr ''Hesse'', PStr ''40-49'', PStr ''M'', PInt 7]]\<rparr>),
      (''get_monthly_transactions'',
         \<lparr>columns = [''kpi_month'', ''total_amount'', ''transaction_count'', ''average_ending_balance''],
          rows = [[PInt 100, PInt 5000, PInt 40, PInt 900],
                  [PInt 200, PInt 6000, PInt 45, PInt 950]]\<rparr>),
      (''get_card_distribution'',
         \<lparr>columns = [''card_type'', ''card_count''], rows = [[PStr ''gold'', PInt 3]]\<rparr>),
      (''get_crm_stats'',
         \<lparr>columns = [''hour'', ''count'', ''average_time''], rows = [[PInt 9, PInt 14, PInt 120]]\<rparr>),
      (''get_complaints_stats'',
         \<lparr>columns = [''product'', ''count''], rows = [[PStr ''Loans'', PInt 2]]\<rparr>)]"

definition sample_world :: world where
  "sample_world =
     \<lparr>environ = map_of [(''SERVING_ENDPOINT'', ''chat-endpoint''), (''GENIE_ID'', ''genie-1''),
                         (''DATABRICKS_WAREHOUSE_ID'', ''wh-1'')],
      dotenv = (\<lambda>k. None),
      request_headers = map_of [(''X-Forwarded-Email'', ''ann@example.com'')],
      is_endpoint_supported = (\<lambda>name. Inr True),
      query_endpoint = (\<lambda>name history max_tokens system_prompt.
                          Inr [(''role'', ''assistant''), (''content'', ''Hi'')]),
      genie_agent = (\<lambda>genie_id name description.
                       Inr (\<lambda>ms. Inr (ResultDict [(''messages'', MessageList (ms @ [AIMessage ''42'']))]))),
      chat_input = Some ''Hello'',
      py_repr = (\<lambda>v. ''?''),
      text_repr = (\<lambda>t. [CHR 0x27] @ t @ [CHR 0x27]),
      message_repr = (\<lambda>m. case m of
                          HumanMessage c \<Rightarrow> ''HumanMessage(content='' @ [CHR 0x27] @ c @ [CHR 0x27] @ '')''
                        | AIMessage c \<Rightarrow> ''AIMessage(content='' @ [CHR 0x27] @ c @ [CHR 0x27] @ '')''
                        | OtherMessage c \<Rightarrow> ''BaseMessage(content='' @ [CHR 0x27] @ c @ [CHR 0x27] @ '')''),
      sdk_config = Inr ''warehouse-host'',
      sql_execute = (\<lambda>host path query. Inl (RemoteError ''unreachable'')),
      cached = map_of sample_frames,
      py_sorted = (\<lambda>vs. Inr vs),
      multiselect = (\<lambda>options default. default),
      column_sum = (\<lambda>vs. Inr (PInt (sum_list (map (\<lambda>v. case v of PInt i \<Rightarrow> i | _ \<Rightarrow> 0) vs)))),
      to_datetime = (\<lambda>v. case v of PInt t \<Rightarrow> Inr (Some t) | PNone \<Rightarrow> Inr None | _ \<Rightarrow> Inl ValueError),
      format_value = (\<lambda>spec v. Inr (py_str (\<lambda>v. ''?'') v)),
      plotly_chart = (\<lambda>title df. Inr ()),
      show_dataframe = (\<lambda>df. Inr ())\<rparr>"

text \<open>A snapshot as the Prompt Composer expects it, and one with nothing to list.\<close>

definition sample_snapshot :: pyval where
  "sample_snapshot =
     PDict [(''name'', PStr ''Ann''), (''email'', PStr ''ann@example.com''), (''user_id'', PInt 7),
            (''accounts'', PDict [(''Checking'', PFloat (Finite False 24691 (- 1))),
                                 (''Savings'', PInt 1000000)]),
            (''recent_transactions'',
               PList [PDict [(''merchant'', PStr ''Bakery''), (''amount'', PFloat (Finite False 5 (- 2)))]]),
            (''preferences'', PDict [(''contact_method'', PStr ''email''),
                                    (''budgeting_style'', PStr ''strict'')])]"

definition empty_snapshot :: pyval where
  "empty_snapshot =
     PDict [(''name'', PStr ''Ann''), (''email'', PNone), (''user_id'', PStr ''u1''),
            (''accounts'', PDict []),
            (''recent_transactions'', PList []),
            (''preferences'', PDict [(''contact_method'', PStr ''email''),
                                    (''budgeting_style'', PStr ''strict'')])]"

text \<open>The sample snapshot with its entries in another order and one entry more.\<close>

definition reordered_snapshot :: pyval where
  "reordered_snapshot =
     PDict [(''last_login'', PStr ''today''),
            (''preferences'', PDict [(''contact_method'', PStr ''email''),
                                    (''budgeting_style'', PStr ''strict'')]),
            (''recent_transactions'',
               PList [PDict [(''merchant'', PStr ''Bakery''), (''amount'', PFloat (Finite False 5 (- 2)))]]),
            (''accounts'', PDict [(''Checking'', PFloat (Finite False 24691 (- 1))),
                                 (''Savings'', PInt 1000000)]),
            (''user_id'', PInt 7), (''email'', PStr ''ann@example.com''), (''name'', PStr ''Ann'')]"

text \<open>
  Variants of the sample world: an agent call that raises, an agent that returns the
  user's message and nothing generated, an endpoint that is not supported, an endpoint
  call that raises, and a warehouse for which the SDK finds no configuration and
  nothing is cached.
\<close>

definition failing_agent_world :: world where
  "failing_agent_world =
     sample_world\<lparr>genie_agent := (\<lambda>genie_id name description.
                                       Inr (\<lambda>ms. Inl (RemoteError ''timeout'')))\<rparr>"

definition echo_agent_world :: world where
  "echo_agent_world =
     sample_world\<lparr>genie_agent := (\<lambda>genie_id name description.
                                       Inr (\<lambda>ms. Inr (ResultDict [(''messages'', MessageList ms)])))\<rparr>"

definition unsupported_world :: world where
  "unsupported_world = sample_world\<lparr>is_endpoint_supported := (\<lambda>name. Inr False)\<rparr>"

definition failing_endpoint_world :: world where
  "failing_endpoint_world =
     sample_world\<lparr>query_endpoint := (\<lambda>name history max_tokens system_prompt.
                                          Inl (RemoteError ''timeout''))\<rparr>"

definition unconfigured_world :: world where
  "unconfigured_world =
     sample_world\<lparr>environ := map_of [(''DATABRICKS_WAREHOUSE_ID'', ''wh-1'')],
                    sdk_config := Inl ValueError,
                    cached := (\<lambda>name. None)\<rparr>"

definition sample_runs :: "(page_name \<times> world) list" where
  "sample_runs = [(GenieAI, sample_world), (SimpleChat, sample_world), (GenieAI, failing_agent_world)]"

text \<open>What one run adds to the conversation.\<close>

definition added :: "world \<Rightarrow> page \<times> (pyerr + unit) \<Rightarrow> string \<Rightarrow> message list" where
  "added w r reply =
     (case submitted w r of
        None \<Rightarrow> []
      | Some pr \<Rightarrow>
          \<lparr>role = ''user'', content = pr\<rparr>
          # (if snd r = Inr () then [\<lparr>role = ''assistant'', content = reply\<rparr>] else []))"

text \<open>
  More sample worlds: one with an empty environment, one whose monthly transactions
  have no rows; and the page state at the start of a run of a new session.
\<close>

definition bare_world :: world where
  "bare_world = sample_world\<lparr>environ := (\<lambda>k. None)\<rparr>"

definition empty_months :: dataframe where
  "empty_months =
     \<lparr>columns = [''kpi_month'', ''total_amount'', ''transaction_count'', ''average_ending_balance''],
      rows = []\<rparr>"

definition no_months_world :: world where
  "no_months_world =
     sample_world\<lparr>cached := (map_of sample_frames)(''get_monthly_transactions'' \<mapsto> empty_months)\<rparr>"

definition start_page :: page where
  "start_page = \<lparr>sess = new_session, trace = []\<rparr>"

section \<open>The time-to-live of the dashboard cache\<close>

text \<open>
  Modelled from the spec: the expiry of \<open>st.cache_data(ttl=300)\<close>, which is Streamlit's
  and not code of the pages. The spec says that results are cached keyed by the
  function identity for a fixed time-to-live of 300 seconds, that repeated calls within
  the window return the cached table without re-executing SQL, and that a call after
  expiry re-executes. So the cache keeps, per function name, the table and the time (in
  seconds) at which it was stored; an entry is held while less than 300 seconds have
  passed since then; a call that finds no held entry runs the body and, when the body
  returns a table, stores it with the time of the call; a call that finds one returns
  it and leaves the entry and its time as they are. An exception of the body stores
  nothing. \<open>timed_call\<close> is a call of a loader at a given time: the loader as the page
  defines it, run in the world whose \<open>cached\<close> is what the cache holds at that time.
\<close>

type_synonym cache_store = "string \<Rightarrow> (nat \<times> dataframe) option"

definition ttl :: nat where
  "ttl = 300"

definition held :: "cache_store \<Rightarrow> nat \<Rightarrow> string \<Rightarrow> dataframe option" where
  "held store now name =
     (case store name of
        None \<Rightarrow> None
      | Some entry \<Rightarrow> if now < fst entry + ttl then Some (snd entry) else None)"

definition timed_call ::
  "string \<Rightarrow> (world \<Rightarrow> dataframe script) \<Rightarrow> cache_store \<Rightarrow> nat \<Rightarrow> world \<Rightarrow> page
     \<Rightarrow> cache_store \<times> page \<times> (pyerr + dataframe)" where
  "timed_call name loader store now w p =
     (let r = loader (w\<lparr>cached := held store now\<rparr>) p
      in (case held store now name of
            Some df \<Rightarrow> store
          | None \<Rightarrow> (case snd r of Inl e \<Rightarrow> store | Inr df \<Rightarrow> store(name \<mapsto> (now, df))),
          fst r, snd r))"

text \<open>The five query functions of the dashboard, by name.\<close>

definition loaders :: "(string \<times> (world \<Rightarrow> dataframe script)) list" where
  "loaders =
     [(''get_demographics_geo'', get_demographics_geo),
      (''get_card_distribution'', get_card_distribution),
      (''get_monthly_transactions'', get_monthly_transactions),
      (''get_crm_stats'', get_crm_stats),
      (''get_complaints_stats'', get_complaints_stats)]"

text \<open>
  Counting on the trace: a run of \<open>sqlQuery\<close> begins with the SDK configuration, and a
  statement sent to the warehouse is an \<open>SqlExecute\<close>.
\<close>

fun is_sdk_config :: "event \<Rightarrow> bool" where
  "is_sdk_config SdkConfig = True"
| "is_sdk_config e = False"

fun is_sql_execute :: "event \<Rightarrow> bool" where
  "is_sql_execute (SqlExecute host path query) = True"
| "is_sql_execute e = False"

definition query_runs :: "page \<Rightarrow> nat" where
  "query_runs p = length (filter is_sdk_config (trace p))"

definition executions :: "page \<Rightarrow> nat" where
  "executions p = length (filter is_sql_execute (trace p))"

text \<open>A world whose warehouse answers every statement with one month of transactions.\<close>

definition one_month :: dataframe where
  "one_month =
     \<lparr>columns = [''kpi_month'', ''total_amount'', ''transaction_count'', ''average_ending_balance''],
      rows = [[PInt 100, PInt 5000, PInt 40, PInt 900]]\<rparr>"

definition warehouse_world :: world where
  "warehouse_world = sample_world\<lparr>sql_execute := (\<lambda>host path query. Inr one_month)\<rparr>"

definition empty_store :: cache_store where
  "empty_store = (\<lambda>name. None)"

section \<open>Basic facts\<close>

lemma and_then_Inr [simp]: "and_then (Inr x) f = f x"
  by (simp add: and_then_def)

lemma and_then_Inl [simp]: "and_then (Inl e) f = Inl e"
  by (simp add: and_then_def)

lemma and_then_eq_Inr: "and_then r f = Inr y \<longleftrightarrow> (\<exists>x. r = Inr x \<and> f x = Inr y)"
  by (cases r) simp_all

lemma succeeds_iff: "succeeds r \<longleftrightarrow> (\<exists>x. r = Inr x)"
  by (cases r) (simp_all add: succeeds_def)

lemma items_empty: "items a = Inr [] \<Longrightarrow> a = PDict []"
  by (cases a) auto

lemma prompt_of_identity:
  "build_system_prompt rp (get_user_info hs) = Inl (KeyError ''accounts'')"
  by (simp add: build_system_prompt_def get_user_info_def)

section \<open>The Prompt Composer\<close>

text \<open>
  C2. For every snapshot that has the scalar fields of the template and whose accounts
  are an empty mapping and whose recent transactions are an empty sequence, the Prompt
  Composer does not raise: it returns a text in which the account header is followed by
  no row (an empty line, then the blank line of the template) and the transaction
  header is followed by no row either, up to the next section.
\<close>

theorem prompt_composer_empty_sections:
  assumes "has_profile ui" and "no_accounts ui" and "no_transactions ui"
  shows "\<exists>before after.
     build_system_prompt rp ui =
       Inr (before @ account_header @ nl @ nl @ transaction_header @ nl @ nl
            @ ''# Banking Preferences'' @ after)"
proof -
  from assms(1) obtain name email user_id prefs cm bs where
    f: "subscript ui ''name'' = Inr name" "subscript ui ''email'' = Inr email"
       "subscript ui ''user_id'' = Inr user_id" "subscript ui ''preferences'' = Inr prefs"
       "subscript prefs ''contact_method'' = Inr cm" "subscript prefs ''budgeting_style'' = Inr bs"
    unfolding has_profile_def succeeds_iff and_then_eq_Inr by auto
  from assms(2) obtain a where a: "subscript ui ''accounts'' = Inr a" "items a = Inr []"
    unfolding no_accounts_def and_then_eq_Inr by auto
  from a(2) have a': "a = PDict []" by (rule items_empty)
  from assms(3) obtain rt where
    t: "subscript ui ''recent_transactions'' = Inr rt" "iterate rt = Inr []"
    unfolding no_transactions_def and_then_eq_Inr by auto
  have eq: "build_system_prompt rp ui =
       Inr ((nl
         @ ''You are a helpful assistant. Always respond clearly, concisely, and provide actionable information when appropriate.'' @ nl
         @ nl
         @ ''# User Information'' @ nl
         @ ''Name: '' @ py_str rp name @ nl
         @ ''Email: '' @ py_str rp email @ nl
         @ ''User ID: '' @ py_str rp user_id @ nl
         @ nl
         @ ''Number of banking accounts: 0'' @ nl)
         @ account_header @ nl @ nl @ transaction_header @ nl @ nl
         @ ''# Banking Preferences'' @ (nl
         @ ''Preferred Contact Method: '' @ py_str rp cm @ nl
         @ ''Budgeting Style: '' @ py_str rp bs @ nl
         @ nl
         @ ''# Context for RAG'' @ nl
         @ ''You have access to the user's banking info above. When answering questions, reference this data when relevant. '' @ nl
         @ ''If the user asks about account balances, recent transactions, or budgeting advice, provide the info from above. '' @ nl
         @ ''Do not make up other sensitive data.'' @ nl))"
    using a(1) by (simp add: build_system_prompt_def f t a' show_nat.simps digit_def)
  show ?thesis
    by (rule exI, rule exI, rule eq)
qed

theorem prompt_composer_empty_sections_witness:
  "has_profile empty_snapshot \<and> no_accounts empty_snapshot \<and> no_transactions empty_snapshot
   \<and> (\<exists>before after.
     build_system_prompt (\<lambda>v. ''?'') empty_snapshot =
       Inr (before @ account_header @ nl @ nl @ transaction_header @ nl @ nl
            @ ''# Banking Preferences'' @ after))"
proof -
  have h: "has_profile empty_snapshot" "no_accounts empty_snapshot"
    "no_transactions empty_snapshot"
    by (simp_all add: has_profile_def no_accounts_def no_transactions_def empty_snapshot_def
        succeeds_def)
  from prompt_composer_empty_sections [OF h, of "\<lambda>v. ''?''"] h show ?thesis
    by blast
qed

text \<open>
  C7. The Prompt Composer is a function of its argument, and of no more of it than the
  six entries it reads: two arguments that agree on these entries give the same
  result, the same text or the same exception. In particular identical inputs give
  identical output; the session state, the submitted prompt, the time and the endpoint
  are no inputs of it.
\<close>

theorem prompt_composer_deterministic:
  assumes "list_all (\<lambda>k. subscript a k = subscript b k) prompt_keys"
  shows "build_system_prompt rp a = build_system_prompt rp b"
  using assms by (simp add: build_system_prompt_def prompt_keys_def)

theorem prompt_composer_deterministic_witness:
  "list_all (\<lambda>k. subscript sample_snapshot k = subscript reordered_snapshot k) prompt_keys
   \<and> build_system_prompt (\<lambda>v. ''?'') sample_snapshot
     = build_system_prompt (\<lambda>v. ''?'') reordered_snapshot"
proof -
  have h: "list_all (\<lambda>k. subscript sample_snapshot k = subscript reordered_snapshot k) prompt_keys"
    by (simp add: prompt_keys_def sample_snapshot_def reordered_snapshot_def)
  from prompt_composer_deterministic [OF h, of "\<lambda>v. ''?''"] h show ?thesis
    by blast
qed

text \<open>The rows of the two sections for the sample snapshot, amounts rounded to cents.\<close>

lemma bit_length_million: "bit_length 1000000 = 20"
  by (simp add: bit_length.simps)

lemma float_of_million: "float_of_int 1000000 = Inr (Finite False 1000000 0)"
  by (simp add: float_of_int_def bit_length_million round_half_even_def)

lemma sample_account_rows:
  "map account_line [(''Checking'', PFloat (Finite False 24691 (- 1))), (''Savings'', PInt 1000000)]
   = [Inr (''- Checking: '' @ euro @ ''12,345.50''), Inr (''- Savings: '' @ euro @ ''1,000,000.00'')]"
  by (simp add: account_line_def float_of_million fixed2_def hundredths_def round_half_even_def
      commas_def show_nat.simps digit_def)

lemma sample_transaction_row:
  "transaction_line rp (0, PDict [(''merchant'', PStr ''Bakery''), (''amount'', PFloat (Finite False 5 (- 2)))])
   = Inr (''1. Bakery - '' @ euro @ ''1.25'')"
  by (simp add: transaction_line_def fixed2_def hundredths_def round_half_even_def
      show_nat.simps digit_def)

text \<open>
  Beyond the empty case: the Prompt Composer returns a text for every well-formed
  snapshot, whatever the number of accounts and transactions.
\<close>

lemma collect_succeeds: "list_all succeeds rs \<Longrightarrow> \<exists>xs. collect rs = Inr xs \<and> length xs = length rs"
  by (induction rs) (auto simp: succeeds_iff)

lemma account_line_succeeds:
  "succeeds (format_f2 True (snd kv)) \<Longrightarrow> succeeds (account_line kv)"
  by (auto simp: succeeds_iff account_line_def)

lemma transaction_line_succeeds: "priced t \<Longrightarrow> succeeds (transaction_line rp (i, t))"
  by (auto simp: succeeds_iff priced_def transaction_line_def and_then_eq_Inr)

lemma enumerate_all: "list_all P ts \<Longrightarrow> list_all (\<lambda>it. P (snd it)) (enumerate n ts)"
  by (induction ts arbitrary: n) auto

lemma prompt_composer_total:
  assumes "well_formed ui"
  shows "\<exists>text. build_system_prompt rp ui = Inr text"
proof -
  from assms have hp: "has_profile ui"
    by (simp add: well_formed_def)
  then obtain name email user_id prefs cm bs where
    f: "subscript ui ''name'' = Inr name" "subscript ui ''email'' = Inr email"
       "subscript ui ''user_id'' = Inr user_id" "subscript ui ''preferences'' = Inr prefs"
       "subscript prefs ''contact_method'' = Inr cm" "subscript prefs ''budgeting_style'' = Inr bs"
    unfolding has_profile_def succeeds_iff and_then_eq_Inr by auto
  from assms obtain a kvs where
    a: "subscript ui ''accounts'' = Inr a" "items a = Inr kvs"
      "list_all (\<lambda>kv. succeeds (format_f2 True (snd kv))) kvs"
    by (auto simp: well_formed_def and_then_eq_Inr split: sum.splits)
  from a(2) have a': "a = PDict kvs"
    by (cases a) auto
  from assms obtain rt ts where
    t: "subscript ui ''recent_transactions'' = Inr rt" "iterate rt = Inr ts" "list_all priced ts"
    by (auto simp: well_formed_def and_then_eq_Inr split: sum.splits)
  from a(3) have "list_all succeeds (map account_line kvs)"
    by (induction kvs) (auto intro: account_line_succeeds)
  then obtain account_lines where al: "collect (map account_line kvs) = Inr account_lines"
    using collect_succeeds by blast
  from t(3) have "list_all succeeds (map (transaction_line rp) (enumerate 0 ts))"
    using enumerate_all [of priced ts 0]
    by (fastforce simp: list_all_iff intro: transaction_line_succeeds)
  then obtain transaction_lines where
    tl: "collect (map (transaction_line rp) (enumerate 0 ts)) = Inr transaction_lines"
    using collect_succeeds by blast
  show ?thesis
    using a(1) by (simp add: build_system_prompt_def f t(1,2) a' al tl)
qed

lemma sample_snapshot_well_formed: "well_formed sample_snapshot"
  by (simp add: well_formed_def has_profile_def priced_def succeeds_def sample_snapshot_def
      float_of_million)

section \<open>Runs of the chat pages\<close>

lemmas script_defs = seq_def ret_def lift_def emit_def emit_all_def init_messages_def get_messages_def
  append_message_def show_history_def init_visibility_def

lemma history_no_chat_input [simp]: "\<not> list_ex is_chat_input (history_events ms)"
  by (induction ms) (simp_all add: history_events_def)

lemma history_no_endpoint_query [simp]: "\<not> list_ex is_endpoint_query (history_events ms)"
  by (induction ms) (simp_all add: history_events_def)

lemma history_no_agent_invoke [simp]: "filter is_agent_invoke (history_events ms) = []"
  by (induction ms) (simp_all add: history_events_def)

lemma history_no_log_record [simp]: "\<not> list_ex is_log_record (history_events ms)"
  by (induction ms) (simp_all add: history_events_def)

lemma simple_chat_turn_result:
  "messages (sess p) = Some ms \<Longrightarrow>
   simple_chat_turn w ep prompt p =
     (p\<lparr>sess := (sess p)\<lparr>messages := Some (ms @ [\<lparr>role = ''user'', content = prompt\<rparr>])\<rparr>,
        trace := trace p @ [ChatMessage ''user'', Markdown prompt]\<rparr>, Inl (KeyError ''accounts''))"
  by (simp add: simple_chat_turn_def script_defs prompt_of_identity)

lemma genie_turn_result:
  "messages (sess p) = Some ms \<Longrightarrow>
   genie_turn w agent prompt p =
     (case agent [HumanMessage prompt] of
        Inl e \<Rightarrow>
          (p\<lparr>sess := (sess p)\<lparr>messages := Some (ms @ [\<lparr>role = ''user'', content = prompt\<rparr>])\<rparr>,
             trace := trace p @ [ChatMessage ''user'', Markdown prompt, AgentInvoke [HumanMessage prompt]]\<rparr>,
           Inl e)
      | Inr result \<Rightarrow>
          (p\<lparr>sess := (sess p)\<lparr>messages := Some (ms @ [\<lparr>role = ''user'', content = prompt\<rparr>,
                                                      \<lparr>role = ''assistant'', content = pick_reply w result\<rparr>])\<rparr>,
             trace := trace p @ [ChatMessage ''user'', Markdown prompt, AgentInvoke [HumanMessage prompt],
                                 ChatMessage ''assistant'', Markdown (pick_reply w result)]\<rparr>,
           Inr ()))"
  by (simp add: genie_turn_def script_defs split: sum.splits)

lemma simple_chat_adds:
  "simple_chat w \<lparr>sess = s, trace = []\<rparr> = r \<Longrightarrow>
   conversation (sess (fst r)) = conversation s @ added w r reply"
  by (auto simp add: simple_chat_def script_defs assert_set_def conversation_def submitted_def
      prompt_of_def added_def simple_chat_turn_result
      split: option.splits sum.splits if_splits prod.splits)

lemma genie_ai_adds:
  "genie_ai w \<lparr>sess = s, trace = []\<rparr> = r \<Longrightarrow>
   \<exists>reply. conversation (sess (fst r)) = conversation s @ added w r reply"
  by (auto simp add: genie_ai_def script_defs assert_set_def conversation_def submitted_def
      prompt_of_def added_def genie_turn_result
      split: option.splits sum.splits if_splits prod.splits)


lemma run_page_adds:
  "\<exists>reply. conversation (session_after r s)
     = conversation s @ added (snd r) (run_page (fst r) (snd r) s) reply"
proof (cases "fst r")
  case SimpleChat
  then show ?thesis
    using simple_chat_adds [OF refl, of "snd r" s]
    by (simp add: session_after_def run_page_def)
next
  case GenieAI
  then show ?thesis
    using genie_ai_adds [OF refl, of "snd r" s]
    by (simp add: session_after_def run_page_def)
qed

lemma added_roles: "map role (added w r reply) = turn_roles (w, r)"
  by (simp add: added_def turn_roles_def replied_def unanswered_def split: option.splits)

lemma added_prompts: "user_prompts (added w r reply) = turn_prompt (w, r)"
  by (simp add: added_def turn_prompt_def user_prompts_def split: option.splits)

lemma user_prompts_append: "user_prompts (xs @ ys) = user_prompts xs @ user_prompts ys"
  by (simp add: user_prompts_def)

lemma turn_roles_length:
  "length (turn_roles r) = 2 * (if replied r then 1 else 0) + (if unanswered r then 1 else 0)"
  by (simp add: turn_roles_def replied_def unanswered_def)

lemma run_session_roles:
  "map role (conversation (run_session runs s))
   = map role (conversation s) @ concat (map turn_roles (run_results runs s))"
proof (induction runs arbitrary: s)
  case Nil
  show ?case by simp
next
  case (Cons r runs)
  from run_page_adds [of r s] obtain reply where
    "conversation (session_after r s)
       = conversation s @ added (snd r) (run_page (fst r) (snd r) s) reply" ..
  then have "map role (conversation (session_after r s))
       = map role (conversation s) @ turn_roles (snd r, run_page (fst r) (snd r) s)"
    by (simp add: added_roles)
  with Cons.IH [of "session_after r s"] show ?case by simp
qed

lemma run_session_prompts:
  "user_prompts (conversation (run_session runs s))
   = user_prompts (conversation s) @ concat (map turn_prompt (run_results runs s))"
proof (induction runs arbitrary: s)
  case Nil
  show ?case by simp
next
  case (Cons r runs)
  from run_page_adds [of r s] obtain reply where
    "conversation (session_after r s)
       = conversation s @ added (snd r) (run_page (fst r) (snd r) s) reply" ..
  then have "user_prompts (conversation (session_after r s))
       = user_prompts (conversation s) @ turn_prompt (snd r, run_page (fst r) (snd r) s)"
    by (simp add: user_prompts_append added_prompts)
  with Cons.IH [of "session_after r s"] show ?case by simp
qed

lemma roles_count:
  "length (concat (map turn_roles rs))
   = 2 * length (filter replied rs) + length (filter unanswered rs)"
  by (induction rs) (simp_all add: turn_roles_length)

lemma run_session_append: "run_session (runs @ later) s = run_session later (run_session runs s)"
  by (induction runs arbitrary: s) simp_all

lemma run_session_extends: "prefix (conversation s) (conversation (run_session runs s))"
proof (induction runs arbitrary: s)
  case Nil
  show ?case by simp
next
  case (Cons r runs)
  from run_page_adds [of r s] have "prefix (conversation s) (conversation (session_after r s))"
    by (auto simp: prefix_def)
  with Cons.IH [of "session_after r s"] show ?case
    by (auto intro: prefix_order.trans)
qed

text \<open>
  C1. Take any sequence of runs of the two chat pages within one session, from any
  session state. The conversation after them is the conversation before, followed by
  what the submitted turns added, in the order of the runs: \<open>user, assistant\<close> for a
  turn that received a reply and \<open>user\<close> alone for a turn whose run ended in an
  exception. Hence its length grows by twice the number of turns that received a reply
  plus the number of turns without one; the prompts of its user messages are the
  submitted prompts in submission order; and the conversation at any moment of the
  session is a prefix of the conversation at any later moment (nothing is deleted,
  edited or reordered).
\<close>

theorem conversation_grows_by_turns:
  "map role (conversation (run_session runs s))
     = map role (conversation s) @ concat (map turn_roles (run_results runs s))
   \<and> length (conversation (run_session runs s))
     = length (conversation s) + 2 * length (filter replied (run_results runs s))
       + length (filter unanswered (run_results runs s))
   \<and> user_prompts (conversation (run_session runs s))
     = user_prompts (conversation s) @ concat (map turn_prompt (run_results runs s))
   \<and> prefix (conversation (run_session runs s)) (conversation (run_session (runs @ later) s))"
proof -
  have "length (conversation (run_session runs s))
      = length (map role (conversation (run_session runs s)))"
    by simp
  also have "\<dots> = length (conversation s) + length (concat (map turn_roles (run_results runs s)))"
    by (simp only: run_session_roles length_append length_map)
  finally have "length (conversation (run_session runs s))
     = length (conversation s) + 2 * length (filter replied (run_results runs s))
       + length (filter unanswered (run_results runs s))"
    by (simp add: roles_count)
  moreover have "prefix (conversation (run_session runs s)) (conversation (run_session (runs @ later) s))"
    by (simp add: run_session_append run_session_extends)
  ultimately show ?thesis
    using run_session_roles [of runs s] run_session_prompts [of runs s] by blast
qed

lemma sample_turns:
  "map turn_roles (run_results sample_runs new_session)
     = [[''user'', ''assistant''], [''user''], [''user'']]"
  "map turn_prompt (run_results sample_runs new_session) = [[''Hello''], [''Hello''], [''Hello'']]"
  "map replied (run_results sample_runs new_session) = [True, False, False]"
  "map unanswered (run_results sample_runs new_session) = [False, True, True]"
  by (simp_all add: sample_runs_def sample_world_def failing_agent_world_def new_session_def
      run_page_def session_after_def genie_ai_def simple_chat_def script_defs assert_set_def
      load_dotenv_def submitted_def prompt_of_def genie_turn_result simple_chat_turn_result
      history_events_def turn_roles_def turn_prompt_def replied_def unanswered_def)

lemma length_filter_map: "length (filter P xs) = length (filter id (map P xs))"
  by (induction xs) simp_all

theorem conversation_grows_by_turns_witness:
  "map role (conversation (run_session sample_runs new_session))
     = [''user'', ''assistant'', ''user'', ''user'']
   \<and> length (conversation (run_session sample_runs new_session)) = 4
   \<and> user_prompts (conversation (run_session sample_runs new_session))
     = [''Hello'', ''Hello'', ''Hello'']"
proof -
  have a: "length (filter replied (run_results sample_runs new_session)) = 1"
    and u: "length (filter unanswered (run_results sample_runs new_session)) = 2"
    by (simp_all add: length_filter_map [of replied] length_filter_map [of unanswered] sample_turns)
  have c: "conversation new_session = []"
    by (simp add: conversation_def new_session_def)
  from conversation_grows_by_turns [of sample_runs new_session "[]"] show ?thesis
    by (simp add: sample_turns a u c user_prompts_def)
qed

lemma simple_chat_facts:
  "simple_chat w \<lparr>sess = s, trace = []\<rparr> = r \<Longrightarrow>
   \<not> list_ex is_endpoint_query (trace (fst r))
   \<and> (submitted w r \<noteq> None \<longrightarrow> snd r = Inl (KeyError ''accounts''))"
  by (auto simp add: simple_chat_def script_defs assert_set_def submitted_def
      prompt_of_def simple_chat_turn_result
      split: option.splits sum.splits if_splits prod.splits)

text \<open>
  C3. For every identity record that \<open>get_user_info\<close> produces, whatever the headers,
  \<open>build_system_prompt\<close> fails with the missing-key error on \<open>accounts\<close>. The SimpleChat
  page builds its system prompt from such a record on every submitted turn, so no run
  of the page ever calls the inference endpoint, and a run in which a turn is
  submitted ends in that error.
\<close>

theorem identity_never_reaches_endpoint:
  "build_system_prompt rp (get_user_info hs) = Inl (KeyError ''accounts'')
   \<and> \<not> list_ex is_endpoint_query (trace (fst (run_page SimpleChat w s)))
   \<and> (submitted w (run_page SimpleChat w s) \<noteq> None
        \<longrightarrow> snd (run_page SimpleChat w s) = Inl (KeyError ''accounts''))"
  using simple_chat_facts [OF refl, of w s]
  by (simp add: prompt_of_identity run_page_def)

lemma sample_simple_chat:
  "run_page SimpleChat sample_world new_session =
     (\<lparr>sess = \<lparr>messages = Some [\<lparr>role = ''user'', content = ''Hello''\<rparr>],
               visibility = Some ''visible'', disabled = Some False\<rparr>,
       trace = [LoggingBasicConfig, SetPageConfig ''centered'' None,
                IsEndpointSupported ''chat-endpoint'', Title chatbot_title,
                Markdown simple_example_text, ChatInput ''What is up?'',
                ChatMessage ''user'', Markdown ''Hello'']\<rparr>,
      Inl (KeyError ''accounts''))"
  by (simp add: sample_world_def new_session_def run_page_def simple_chat_def script_defs
      assert_set_def simple_chat_turn_result history_events_def)

theorem identity_never_reaches_endpoint_witness:
  "submitted sample_world (run_page SimpleChat sample_world new_session) = Some ''Hello''
   \<and> snd (run_page SimpleChat sample_world new_session) = Inl (KeyError ''accounts'')
   \<and> \<not> list_ex is_endpoint_query (trace (fst (run_page SimpleChat sample_world new_session)))
   \<and> build_system_prompt (\<lambda>v. ''?'') (get_user_info (request_headers sample_world))
       = Inl (KeyError ''accounts'')"
proof -
  have s: "submitted sample_world (run_page SimpleChat sample_world new_session) = Some ''Hello''"
    by (simp add: sample_simple_chat submitted_def prompt_of_def) (simp add: sample_world_def)
  from identity_never_reaches_endpoint
    [of "\<lambda>v. ''?''" "request_headers sample_world" sample_world new_session] s
  show ?thesis by simp
qed

lemma simple_chat_unsupported:
  assumes "environ w ''SERVING_ENDPOINT'' = Some ep" and "ep \<noteq> []"
    and "is_endpoint_supported w ep = Inr False"
  shows "run_page SimpleChat w s =
     (\<lparr>sess = (if visibility s = None
                then s\<lparr>visibility := Some ''visible'', disabled := Some False\<rparr> else s),
       trace = [LoggingBasicConfig, SetPageConfig ''centered'' None, IsEndpointSupported ep,
                Title chatbot_title, ErrorBox unsupported_title,
                Markdown (unsupported_text ep)]\<rparr>,
      Inr ())"
  using assms
  by (auto simp add: run_page_def simple_chat_def script_defs assert_set_def split: option.splits)

lemma simple_chat_guarded:
  "simple_chat w \<lparr>sess = s, trace = []\<rparr> = r \<Longrightarrow>
   list_ex is_chat_input (trace (fst r)) \<or> list_ex is_endpoint_query (trace (fst r)) \<Longrightarrow>
   \<exists>ep. environ w ''SERVING_ENDPOINT'' = Some ep \<and> is_endpoint_supported w ep = Inr True
     \<and> take 3 (trace (fst r)) = [LoggingBasicConfig, SetPageConfig ''centered'' None, IsEndpointSupported ep]"
  by (auto simp add: simple_chat_def script_defs assert_set_def simple_chat_turn_result
      split: option.splits sum.splits if_splits prod.splits)

text \<open>
  C4. When the capability check reports the endpoint unsupported, the run of the
  SimpleChat page is exactly this: the check itself, the title, the
  unsupported-endpoint notice and its explanation; no chat input is drawn, the
  endpoint is not queried and the conversation is untouched. And in any run that draws
  the chat input or queries the endpoint, the capability check came first (it is the
  third effect of the run, after the logging and page configuration) and reported the
  endpoint supported.
\<close>

theorem capability_check_fails_closed:
  "(environ w ''SERVING_ENDPOINT'' = Some ep \<and> ep \<noteq> [] \<and> is_endpoint_supported w ep = Inr False
      \<longrightarrow> run_page SimpleChat w s =
           (\<lparr>sess = (if visibility s = None
                      then s\<lparr>visibility := Some ''visible'', disabled := Some False\<rparr> else s),
             trace = [LoggingBasicConfig, SetPageConfig ''centered'' None, IsEndpointSupported ep,
                      Title chatbot_title, ErrorBox unsupported_title,
                      Markdown (unsupported_text ep)]\<rparr>,
            Inr ())
         \<and> messages (sess (fst (run_page SimpleChat w s))) = messages s
         \<and> \<not> list_ex is_chat_input (trace (fst (run_page SimpleChat w s)))
         \<and> \<not> list_ex is_endpoint_query (trace (fst (run_page SimpleChat w s))))
   \<and> (list_ex is_chat_input (trace (fst (run_page SimpleChat w s)))
        \<or> list_ex is_endpoint_query (trace (fst (run_page SimpleChat w s)))
      \<longrightarrow> (\<exists>name. environ w ''SERVING_ENDPOINT'' = Some name
             \<and> is_endpoint_supported w name = Inr True
             \<and> take 3 (trace (fst (run_page SimpleChat w s)))
                 = [LoggingBasicConfig, SetPageConfig ''centered'' None, IsEndpointSupported name]))"
proof (intro conjI impI)
  assume a: "environ w ''SERVING_ENDPOINT'' = Some ep \<and> ep \<noteq> [] \<and> is_endpoint_supported w ep = Inr False"
  then have r: "run_page SimpleChat w s =
     (\<lparr>sess = (if visibility s = None
                then s\<lparr>visibility := Some ''visible'', disabled := Some False\<rparr> else s),
       trace = [LoggingBasicConfig, SetPageConfig ''centered'' None, IsEndpointSupported ep,
                Title chatbot_title, ErrorBox unsupported_title,
                Markdown (unsupported_text ep)]\<rparr>,
      Inr ())"
    by (simp add: simple_chat_unsupported)
  show "run_page SimpleChat w s =
     (\<lparr>sess = (if visibility s = None
                then s\<lparr>visibility := Some ''visible'', disabled := Some False\<rparr> else s),
       trace = [LoggingBasicConfig, SetPageConfig ''centered'' None, IsEndpointSupported ep,
                Title chatbot_title, ErrorBox unsupported_title,
                Markdown (unsupported_text ep)]\<rparr>,
      Inr ())"
    by (rule r)
  show "messages (sess (fst (run_page SimpleChat w s))) = messages s"
    by (simp add: r)
  show "\<not> list_ex is_chat_input (trace (fst (run_page SimpleChat w s)))"
    by (simp add: r)
  show "\<not> list_ex is_endpoint_query (trace (fst (run_page SimpleChat w s)))"
    by (simp add: r)
next
  assume "list_ex is_chat_input (trace (fst (run_page SimpleChat w s)))
        \<or> list_ex is_endpoint_query (trace (fst (run_page SimpleChat w s)))"
  then show "\<exists>name. environ w ''SERVING_ENDPOINT'' = Some name
             \<and> is_endpoint_supported w name = Inr True
             \<and> take 3 (trace (fst (run_page SimpleChat w s)))
                 = [LoggingBasicConfig, SetPageConfig ''centered'' None, IsEndpointSupported name]"
    using simple_chat_guarded [OF refl, of w s] by (simp add: run_page_def)
qed

theorem capability_check_fails_closed_witness:
  "(environ unsupported_world ''SERVING_ENDPOINT'' = Some ''chat-endpoint''
      \<and> ''chat-endpoint'' \<noteq> []
      \<and> is_endpoint_supported unsupported_world ''chat-endpoint'' = Inr False)
   \<and> run_page SimpleChat unsupported_world new_session =
       (\<lparr>sess = (if visibility new_session = None
                  then new_session\<lparr>visibility := Some ''visible'', disabled := Some False\<rparr>
                  else new_session),
         trace = [LoggingBasicConfig, SetPageConfig ''centered'' None,
                  IsEndpointSupported ''chat-endpoint'', Title chatbot_title,
                  ErrorBox unsupported_title, Markdown (unsupported_text ''chat-endpoint'')]\<rparr>,
        Inr ())
   \<and> list_ex is_chat_input (trace (fst (run_page SimpleChat sample_world new_session)))
   \<and> (\<exists>name. environ sample_world ''SERVING_ENDPOINT'' = Some name
         \<and> is_endpoint_supported sample_world name = Inr True
         \<and> take 3 (trace (fst (run_page SimpleChat sample_world new_session)))
             = [LoggingBasicConfig, SetPageConfig ''centered'' None, IsEndpointSupported name])"
proof -
  have u: "environ unsupported_world ''SERVING_ENDPOINT'' = Some ''chat-endpoint''
      \<and> ''chat-endpoint'' \<noteq> []
      \<and> is_endpoint_supported unsupported_world ''chat-endpoint'' = Inr False"
    by (simp add: unsupported_world_def sample_world_def)
  have c: "list_ex is_chat_input (trace (fst (run_page SimpleChat sample_world new_session)))"
    by (simp add: sample_simple_chat)
  then have c': "list_ex is_chat_input (trace (fst (run_page SimpleChat sample_world new_session)))
      \<or> list_ex is_endpoint_query (trace (fst (run_page SimpleChat sample_world new_session)))" ..
  note closed = capability_check_fails_closed
    [of unsupported_world "''chat-endpoint''" new_session, THEN conjunct1, THEN mp, OF u, THEN conjunct1]
  note guarded = capability_check_fails_closed
    [of sample_world "''chat-endpoint''" new_session, THEN conjunct2, THEN mp, OF c']
  show ?thesis
    by (rule conjI [OF u conjI [OF closed conjI [OF c guarded]]])
qed

lemma messages_same: "messages s = Some ms \<Longrightarrow> s\<lparr>messages := Some ms\<rparr> = s"
  by (cases s) simp

lemma genie_ai_turn:
  assumes "load_dotenv w ''GENIE_ID'' = Some gid" and "gid \<noteq> []"
    and "genie_agent w gid ''Genie'' genie_description = Inr agent"
    and "chat_input w = Some prompt" and "prompt \<noteq> []"
  shows "run_page GenieAI w s =
     genie_turn w agent prompt
       \<lparr>sess = s\<lparr>messages := Some (conversation s)\<rparr>,
        trace = [SetPageConfig ''centered'' None, LoggingBasicConfig,
                 SidebarMarkdown sidebar_user_text,
                 SidebarWrite (get_user_info (request_headers w)),
                 SidebarMarkdown sidebar_about_text,
                 NewGenieAgent gid ''Genie'' genie_description]
                @ history_events (conversation s) @ [ChatInput genie_placeholder]\<rparr>"
  using assms
  by (auto simp add: run_page_def genie_ai_def script_defs assert_set_def conversation_def
      messages_same split: option.splits)

lemma chat_reply_fails:
  assumes "messages (sess p) = Some ms"
    and "and_then (query_endpoint w ep ms 400 sp) (\<lambda>r. lookup r ''content'') = Inl e"
  shows "chat_reply w ep sp p =
     (p\<lparr>trace := trace p @ [ChatMessage ''assistant'', QueryEndpoint ep ms 400 sp]\<rparr>, Inl e)"
  using assms
  by (auto simp add: chat_reply_def script_defs and_then_def split: sum.splits)

text \<open>
  C5. On the agent page, when the agent call of a submitted turn raises, the run ends in
  that exception, the conversation is the one before plus the user message of the turn
  and nothing more, and the agent was invoked exactly once. On the SimpleChat page, when
  the endpoint call of the reply step raises (or its answer lacks the reply field), the
  step ends in that exception after one call, leaving the session as it found it, that
  is with the user message that the turn appended before it and without an assistant
  message; and every submitted turn there ends in an exception with its user message
  recorded.
\<close>

theorem failed_call_keeps_user_message:
  "(load_dotenv w ''GENIE_ID'' = Some gid \<and> gid \<noteq> []
      \<and> genie_agent w gid ''Genie'' genie_description = Inr agent
      \<and> chat_input w = Some prompt \<and> prompt \<noteq> []
      \<and> agent [HumanMessage prompt] = Inl e
     \<longrightarrow> snd (run_page GenieAI w s) = Inl e
         \<and> conversation (sess (fst (run_page GenieAI w s)))
             = conversation s @ [\<lparr>role = ''user'', content = prompt\<rparr>]
         \<and> filter is_agent_invoke (trace (fst (run_page GenieAI w s)))
             = [AgentInvoke [HumanMessage prompt]])
   \<and> (messages (sess p) = Some ms
      \<and> and_then (query_endpoint w ep ms 400 sp) (\<lambda>r. lookup r ''content'') = Inl e
     \<longrightarrow> chat_reply w ep sp p =
           (p\<lparr>trace := trace p @ [ChatMessage ''assistant'', QueryEndpoint ep ms 400 sp]\<rparr>, Inl e))
   \<and> (messages (sess p) = Some ms
     \<longrightarrow> simple_chat_turn w ep prompt p =
           (p\<lparr>sess := (sess p)\<lparr>messages := Some (ms @ [\<lparr>role = ''user'', content = prompt\<rparr>])\<rparr>,
              trace := trace p @ [ChatMessage ''user'', Markdown prompt]\<rparr>,
            Inl (KeyError ''accounts'')))"
proof (intro conjI impI)
  assume a: "load_dotenv w ''GENIE_ID'' = Some gid \<and> gid \<noteq> []
      \<and> genie_agent w gid ''Genie'' genie_description = Inr agent
      \<and> chat_input w = Some prompt \<and> prompt \<noteq> []
      \<and> agent [HumanMessage prompt] = Inl e"
  then have r: "run_page GenieAI w s =
     genie_turn w agent prompt
       \<lparr>sess = s\<lparr>messages := Some (conversation s)\<rparr>,
        trace = [SetPageConfig ''centered'' None, LoggingBasicConfig,
                 SidebarMarkdown sidebar_user_text,
                 SidebarWrite (get_user_info (request_headers w)),
                 SidebarMarkdown sidebar_about_text,
                 NewGenieAgent gid ''Genie'' genie_description]
                @ history_events (conversation s) @ [ChatInput genie_placeholder]\<rparr>"
    by (simp add: genie_ai_turn)
  from a show "snd (run_page GenieAI w s) = Inl e"
    by (simp add: r genie_turn_result)
  from a show "conversation (sess (fst (run_page GenieAI w s)))
             = conversation s @ [\<lparr>role = ''user'', content = prompt\<rparr>]"
    by (simp add: r genie_turn_result conversation_def)
  from a show "filter is_agent_invoke (trace (fst (run_page GenieAI w s)))
             = [AgentInvoke [HumanMessage prompt]]"
    by (simp add: r genie_turn_result)
next
  assume "messages (sess p) = Some ms
      \<and> and_then (query_endpoint w ep ms 400 sp) (\<lambda>r. lookup r ''content'') = Inl e"
  then show "chat_reply w ep sp p =
           (p\<lparr>trace := trace p @ [ChatMessage ''assistant'', QueryEndpoint ep ms 400 sp]\<rparr>, Inl e)"
    by (simp add: chat_reply_fails)
next
  assume "messages (sess p) = Some ms"
  then show "simple_chat_turn w ep prompt p =
           (p\<lparr>sess := (sess p)\<lparr>messages := Some (ms @ [\<lparr>role = ''user'', content = prompt\<rparr>])\<rparr>,
              trace := trace p @ [ChatMessage ''user'', Markdown prompt]\<rparr>,
            Inl (KeyError ''accounts''))"
    by (rule simple_chat_turn_result)
qed


theorem failed_call_keeps_user_message_witness:
  "(load_dotenv failing_agent_world ''GENIE_ID'' = Some ''genie-1'' \<and> ''genie-1'' \<noteq> []
      \<and> genie_agent failing_agent_world ''genie-1'' ''Genie'' genie_description
          = Inr (\<lambda>ms. Inl (RemoteError ''timeout''))
      \<and> chat_input failing_agent_world = Some ''Hello'' \<and> ''Hello'' \<noteq> []
      \<and> (\<lambda>ms. Inl (RemoteError ''timeout'')) [HumanMessage ''Hello''] = Inl (RemoteError ''timeout''))
   \<and> (snd (run_page GenieAI failing_agent_world new_session) = Inl (RemoteError ''timeout'')
      \<and> conversation (sess (fst (run_page GenieAI failing_agent_world new_session)))
          = conversation new_session @ [\<lparr>role = ''user'', content = ''Hello''\<rparr>]
      \<and> filter is_agent_invoke (trace (fst (run_page GenieAI failing_agent_world new_session)))
          = [AgentInvoke [HumanMessage ''Hello'']])
   \<and> (messages (sess \<lparr>sess = new_session\<lparr>messages := Some [\<lparr>role = ''user'', content = ''Hello''\<rparr>]\<rparr>, trace = []\<rparr>)
        = Some [\<lparr>role = ''user'', content = ''Hello''\<rparr>]
      \<and> and_then (query_endpoint failing_endpoint_world ''chat-endpoint''
                     [\<lparr>role = ''user'', content = ''Hello''\<rparr>] 400 ''Be brief.'')
            (\<lambda>r. lookup r ''content'') = Inl (RemoteError ''timeout''))
   \<and> chat_reply failing_endpoint_world ''chat-endpoint'' ''Be brief.''
        \<lparr>sess = new_session\<lparr>messages := Some [\<lparr>role = ''user'', content = ''Hello''\<rparr>]\<rparr>, trace = []\<rparr>
      = (\<lparr>sess = new_session\<lparr>messages := Some [\<lparr>role = ''user'', content = ''Hello''\<rparr>]\<rparr>, trace = []\<rparr>
           \<lparr>trace := trace \<lparr>sess = new_session\<lparr>messages := Some [\<lparr>role = ''user'', content = ''Hello''\<rparr>]\<rparr>, trace = []\<rparr>
              @ [ChatMessage ''assistant'',
                 QueryEndpoint ''chat-endpoint'' [\<lparr>role = ''user'', content = ''Hello''\<rparr>] 400 ''Be brief.'']\<rparr>,
         Inl (RemoteError ''timeout''))"
proof -
  have g: "load_dotenv failing_agent_world ''GENIE_ID'' = Some ''genie-1'' \<and> ''genie-1'' \<noteq> []
      \<and> genie_agent failing_agent_world ''genie-1'' ''Genie'' genie_description
          = Inr (\<lambda>ms. Inl (RemoteError ''timeout''))
      \<and> chat_input failing_agent_world = Some ''Hello'' \<and> ''Hello'' \<noteq> []
      \<and> (\<lambda>ms. Inl (RemoteError ''timeout'')) [HumanMessage ''Hello''] = Inl (RemoteError ''timeout'')"
    by (simp add: failing_agent_world_def sample_world_def load_dotenv_def)
  have q: "messages (sess \<lparr>sess = new_session\<lparr>messages := Some [\<lparr>role = ''user'', content = ''Hello''\<rparr>]\<rparr>, trace = []\<rparr>)
        = Some [\<lparr>role = ''user'', content = ''Hello''\<rparr>]
      \<and> and_then (query_endpoint failing_endpoint_world ''chat-endpoint''
                     [\<lparr>role = ''user'', content = ''Hello''\<rparr>] 400 ''Be brief.'')
            (\<lambda>r. lookup r ''content'') = Inl (RemoteError ''timeout'')"
    by (simp add: failing_endpoint_world_def sample_world_def)
  note agent_part = failed_call_keeps_user_message
    [where w = failing_agent_world and gid = "''genie-1''" and prompt = "''Hello''"
       and agent = "\<lambda>ms. Inl (RemoteError ''timeout'')" and e = "RemoteError ''timeout''"
       and s = new_session, THEN conjunct1, THEN mp, OF g]
  note endpoint_part = failed_call_keeps_user_message
    [where w = failing_endpoint_world and ep = "''chat-endpoint''" and sp = "''Be brief.''"
       and ms = "[\<lparr>role = ''user'', content = ''Hello''\<rparr>]" and e = "RemoteError ''timeout''"
       and p = "\<lparr>sess = new_session\<lparr>messages := Some [\<lparr>role = ''user'', content = ''Hello''\<rparr>]\<rparr>, trace = []\<rparr>",
     THEN conjunct2, THEN conjunct1, THEN mp, OF q]
  show ?thesis
    by (rule conjI [OF g conjI [OF agent_part conjI [OF q endpoint_part]]])
qed

lemma result_str_dict_not_empty: "result_str w (ResultDict kvs) \<noteq> []"
  by simp

lemma genie_ai_no_log:
  "genie_ai w \<lparr>sess = s, trace = []\<rparr> = r \<Longrightarrow> \<not> list_ex is_log_record (trace (fst r))"
  by (auto simp add: genie_ai_def script_defs assert_set_def genie_turn_result
      split: option.splits sum.splits if_splits prod.splits)

lemma echo_run:
  "run_page GenieAI echo_agent_world new_session =
     (\<lparr>sess = new_session\<lparr>messages := Some [\<lparr>role = ''user'', content = ''Hello''\<rparr>,
                 \<lparr>role = ''assistant'', content = ''{'messages': [HumanMessage(content='Hello')]}''\<rparr>]\<rparr>,
       trace = [SetPageConfig ''centered'' None, LoggingBasicConfig,
                SidebarMarkdown sidebar_user_text,
                SidebarWrite (get_user_info (request_headers echo_agent_world)),
                SidebarMarkdown sidebar_about_text,
                NewGenieAgent ''genie-1'' ''Genie'' genie_description,
                ChatInput genie_placeholder, ChatMessage ''user'', Markdown ''Hello'',
                AgentInvoke [HumanMessage ''Hello''], ChatMessage ''assistant'',
                Markdown ''{'messages': [HumanMessage(content='Hello')]}'']\<rparr>,
      Inr ())"
  by (simp add: echo_agent_world_def sample_world_def new_session_def run_page_def genie_ai_def
      script_defs assert_set_def load_dotenv_def genie_turn_result history_events_def
      pick_reply_def)

text \<open>
  C6 as stated fails on the code: the agent page never writes a log record. Here the
  agent returns a result with the user's message and no generated one; the page shows
  and stores the fallback text and its trace holds no log record.
\<close>

theorem agent_fallback_not_logged:
  "snd (run_page GenieAI echo_agent_world new_session) = Inr ()
   \<and> conversation (sess (fst (run_page GenieAI echo_agent_world new_session)))
       = [\<lparr>role = ''user'', content = ''Hello''\<rparr>,
          \<lparr>role = ''assistant'', content = ''{'messages': [HumanMessage(content='Hello')]}''\<rparr>]
   \<and> \<not> list_ex is_log_record (trace (fst (run_page GenieAI echo_agent_world new_session)))"
  by (simp add: echo_run conversation_def)

text \<open>
  C6, amended. For every agent result that is a dictionary whose message list holds no
  generated turn, the reply is the rendering of the whole result, which is not empty.
  No run of the agent page writes a log record. And whenever the agent returns a
  result, the run does not raise: it ends normally with the user message and the reply
  (a string) appended.
\<close>

theorem fallback_reply_is_rendering:
  "(map_of kvs ''messages'' = Some v \<and> ai_contents v = []
      \<longrightarrow> pick_reply w (ResultDict kvs) = result_str w (ResultDict kvs)
          \<and> pick_reply w (ResultDict kvs) \<noteq> [])
   \<and> \<not> list_ex is_log_record (trace (fst (run_page GenieAI w s)))
   \<and> (load_dotenv w ''GENIE_ID'' = Some gid \<and> gid \<noteq> []
      \<and> genie_agent w gid ''Genie'' genie_description = Inr agent
      \<and> chat_input w = Some prompt \<and> prompt \<noteq> []
      \<and> agent [HumanMessage prompt] = Inr result
     \<longrightarrow> snd (run_page GenieAI w s) = Inr ()
         \<and> conversation (sess (fst (run_page GenieAI w s)))
             = conversation s @ [\<lparr>role = ''user'', content = prompt\<rparr>,
                                 \<lparr>role = ''assistant'', content = pick_reply w result\<rparr>])"
proof (intro conjI impI)
  assume a: "map_of kvs ''messages'' = Some v \<and> ai_contents v = []"
  then show p: "pick_reply w (ResultDict kvs) = result_str w (ResultDict kvs)"
    by (simp add: pick_reply_def)
  show "pick_reply w (ResultDict kvs) \<noteq> []"
    unfolding p by (rule result_str_dict_not_empty)
next
  show "\<not> list_ex is_log_record (trace (fst (run_page GenieAI w s)))"
    using genie_ai_no_log [OF refl, of w s] by (simp add: run_page_def)
next
  assume a: "load_dotenv w ''GENIE_ID'' = Some gid \<and> gid \<noteq> []
      \<and> genie_agent w gid ''Genie'' genie_description = Inr agent
      \<and> chat_input w = Some prompt \<and> prompt \<noteq> []
      \<and> agent [HumanMessage prompt] = Inr result"
  then have r: "run_page GenieAI w s =
     genie_turn w agent prompt
       \<lparr>sess = s\<lparr>messages := Some (conversation s)\<rparr>,
        trace = [SetPageConfig ''centered'' None, LoggingBasicConfig,
                 SidebarMarkdown sidebar_user_text,
                 SidebarWrite (get_user_info (request_headers w)),
                 SidebarMarkdown sidebar_about_text,
                 NewGenieAgent gid ''Genie'' genie_description]
                @ history_events (conversation s) @ [ChatInput genie_placeholder]\<rparr>"
    by (simp add: genie_ai_turn)
  from a show "snd (run_page GenieAI w s) = Inr ()"
    by (simp add: r genie_turn_result)
  from a show "conversation (sess (fst (run_page GenieAI w s)))
             = conversation s @ [\<lparr>role = ''user'', content = prompt\<rparr>,
                                 \<lparr>role = ''assistant'', content = pick_reply w result\<rparr>]"
    by (simp add: r genie_turn_result conversation_def)
qed

theorem fallback_reply_is_rendering_witness:
  "(map_of [(''messages'', MessageList [HumanMessage ''Hello''])] ''messages''
        = Some (MessageList [HumanMessage ''Hello''])
      \<and> ai_contents (MessageList [HumanMessage ''Hello'']) = [])
   \<and> (pick_reply echo_agent_world (ResultDict [(''messages'', MessageList [HumanMessage ''Hello''])])
        = result_str echo_agent_world (ResultDict [(''messages'', MessageList [HumanMessage ''Hello''])])
      \<and> pick_reply echo_agent_world (ResultDict [(''messages'', MessageList [HumanMessage ''Hello''])]) \<noteq> [])
   \<and> result_str echo_agent_world (ResultDict [(''messages'', MessageList [HumanMessage ''Hello''])])
       = ''{'messages': [HumanMessage(content='Hello')]}''"
proof -
  have h: "map_of [(''messages'', MessageList [HumanMessage ''Hello''])] ''messages''
        = Some (MessageList [HumanMessage ''Hello''])
      \<and> ai_contents (MessageList [HumanMessage ''Hello'']) = []"
    by simp
  have t: "result_str echo_agent_world (ResultDict [(''messages'', MessageList [HumanMessage ''Hello''])])
       = ''{'messages': [HumanMessage(content='Hello')]}''"
    by (simp add: echo_agent_world_def sample_world_def)
  note fallback = fallback_reply_is_rendering
    [where w = echo_agent_world and kvs = "[(''messages'', MessageList [HumanMessage ''Hello''])]"
       and v = "MessageList [HumanMessage ''Hello'']", THEN conjunct1, THEN mp, OF h]
  show ?thesis
    by (rule conjI [OF h conjI [OF fallback t]])
qed

section \<open>Start-up checks\<close>

lemma assert_set_missing: "missing v \<Longrightarrow> assert_set v text = Inl (AssertionError text)"
  by (auto simp: missing_def assert_set_def)

text \<open>
  C8, amended. When the serving-endpoint identifier, the agent identifier or the
  warehouse identifier is missing (unset or empty), the page that needs it ends in an
  assertion error that carries its explicit message, with no default put in its place,
  before any remote call and without touching the session state: the SimpleChat page
  has by then configured logging and the page, the agent page has also drawn its side
  bar, the dashboard has done nothing. This is the only check the dashboard makes at
  its start: with the warehouse identifier present it goes on to its body, whatever
  host and credentials are or are not configured.
\<close>

theorem missing_identifier_aborts:
  "(missing (environ w ''SERVING_ENDPOINT'')
      \<longrightarrow> run_page SimpleChat w s =
           (\<lparr>sess = s, trace = [LoggingBasicConfig, SetPageConfig ''centered'' None]\<rparr>,
            Inl (AssertionError serving_endpoint_message))
         \<and> \<not> list_ex is_remote_call (trace (fst (run_page SimpleChat w s))))
   \<and> (missing (load_dotenv w ''GENIE_ID'')
      \<longrightarrow> run_page GenieAI w s =
           (\<lparr>sess = s,
             trace = [SetPageConfig ''centered'' None, LoggingBasicConfig,
                      SidebarMarkdown sidebar_user_text,
                      SidebarWrite (get_user_info (request_headers w)),
                      SidebarMarkdown sidebar_about_text]\<rparr>,
            Inl (AssertionError genie_id_message))
         \<and> \<not> list_ex is_remote_call (trace (fst (run_page GenieAI w s))))
   \<and> (missing (load_dotenv w ''DATABRICKS_WAREHOUSE_ID'')
      \<longrightarrow> dashboard w p = (p, Inl (AssertionError warehouse_message)))
   \<and> (\<not> missing (load_dotenv w ''DATABRICKS_WAREHOUSE_ID'')
      \<longrightarrow> dashboard w p = dashboard_body w p)"
  by (auto simp add: run_page_def simple_chat_def genie_ai_def dashboard_def script_defs
      assert_set_missing assert_set_def missing_def split: option.splits)

theorem missing_identifier_aborts_witness:
  "missing (environ bare_world ''SERVING_ENDPOINT'')
   \<and> (run_page SimpleChat bare_world new_session =
         (\<lparr>sess = new_session, trace = [LoggingBasicConfig, SetPageConfig ''centered'' None]\<rparr>,
          Inl (AssertionError serving_endpoint_message))
       \<and> \<not> list_ex is_remote_call (trace (fst (run_page SimpleChat bare_world new_session))))
   \<and> missing (load_dotenv bare_world ''GENIE_ID'')
   \<and> (run_page GenieAI bare_world new_session =
         (\<lparr>sess = new_session,
           trace = [SetPageConfig ''centered'' None, LoggingBasicConfig,
                    SidebarMarkdown sidebar_user_text,
                    SidebarWrite (get_user_info (request_headers bare_world)),
                    SidebarMarkdown sidebar_about_text]\<rparr>,
          Inl (AssertionError genie_id_message))
       \<and> \<not> list_ex is_remote_call (trace (fst (run_page GenieAI bare_world new_session))))
   \<and> missing (load_dotenv bare_world ''DATABRICKS_WAREHOUSE_ID'')
   \<and> dashboard bare_world start_page = (start_page, Inl (AssertionError warehouse_message))
   \<and> \<not> missing (load_dotenv unconfigured_world ''DATABRICKS_WAREHOUSE_ID'')
   \<and> dashboard unconfigured_world start_page = dashboard_body unconfigured_world start_page"
proof -
  have m: "missing (environ bare_world ''SERVING_ENDPOINT'')"
    "missing (load_dotenv bare_world ''GENIE_ID'')"
    "missing (load_dotenv bare_world ''DATABRICKS_WAREHOUSE_ID'')"
    by (simp_all add: missing_def bare_world_def sample_world_def load_dotenv_def)
  have n: "\<not> missing (load_dotenv unconfigured_world ''DATABRICKS_WAREHOUSE_ID'')"
    by (simp add: missing_def unconfigured_world_def sample_world_def load_dotenv_def)
  note all = missing_identifier_aborts [of bare_world new_session start_page]
  note chat = all [THEN conjunct1, THEN mp, OF m(1)]
  note genie = all [THEN conjunct2, THEN conjunct1, THEN mp, OF m(2)]
  note board = all [THEN conjunct2, THEN conjunct2, THEN conjunct1, THEN mp, OF m(3)]
  note body = missing_identifier_aborts [of unconfigured_world new_session start_page,
    THEN conjunct2, THEN conjunct2, THEN conjunct2, THEN mp, OF n]
  show ?thesis
    by (rule conjI [OF m(1) conjI [OF chat conjI [OF m(2) conjI [OF genie conjI [OF m(3)
          conjI [OF board conjI [OF n body]]]]]]])
qed

text \<open>
  C8 as stated fails on the code. With the warehouse identifier set and no host or
  token configured, the dashboard passes its start-up check, configures the page,
  draws the side bar title and only then fails inside the first query, with whatever the
  SDK raises and no message of the page. And the agent page without its identifier
  aborts after it has drawn its side bar.
\<close>

theorem startup_checks_counterexample:
  "load_dotenv unconfigured_world ''DATABRICKS_HOST'' = None
   \<and> load_dotenv unconfigured_world ''DATABRICKS_TOKEN'' = None
   \<and> dashboard unconfigured_world start_page =
       (\<lparr>sess = new_session,
         trace = [SetPageConfig ''wide'' (Some ''Retail Banking Dashboard''),
                  SidebarTitle ''Filters'', SdkConfig]\<rparr>,
        Inl ValueError)
   \<and> run_page GenieAI unconfigured_world new_session =
       (\<lparr>sess = new_session,
         trace = [SetPageConfig ''centered'' None, LoggingBasicConfig,
                  SidebarMarkdown sidebar_user_text,
                  SidebarWrite (get_user_info (request_headers unconfigured_world)),
                  SidebarMarkdown sidebar_about_text]\<rparr>,
        Inl (AssertionError genie_id_message))"
  by (simp add: unconfigured_world_def sample_world_def load_dotenv_def start_page_def
      dashboard_def dashboard_body_def get_demographics_geo_def cache_data_def sqlQuery_def
      run_page_def genie_ai_def script_defs assert_set_def)

section \<open>The dashboard\<close>

lemma seq_Inr:
  "seq m f p = (p'', Inr y) \<longleftrightarrow> (\<exists>p' x. m p = (p', Inr x) \<and> f x p' = (p'', Inr y))"
  by (auto simp: seq_def split: prod.splits sum.splits)

lemma lift_Inr: "lift r p = (p', Inr x) \<longleftrightarrow> p' = p \<and> r = Inr x"
  by (auto simp: lift_def)

lemma index_of_Some: "index_of name cs = Some i \<Longrightarrow> name \<in> set cs"
  by (induction cs arbitrary: i) (auto split: if_splits)

lemma index_of_mem: "name \<in> set cs \<Longrightarrow> \<exists>i. index_of name cs = Some i"
  by (induction cs) auto

lemma column_Inr: "column df name = Inr vs \<Longrightarrow> name \<in> set (columns df)"
  by (auto simp: column_def split: option.splits dest: index_of_Some)

lemma row_value_Inr: "row_value cs r name = Inr v \<Longrightarrow> name \<in> set cs"
  by (auto simp: row_value_def split: option.splits dest: index_of_Some)

lemma express_columns_Inr: "express_columns df cs = Inr u \<Longrightarrow> set cs \<subseteq> set (columns df)"
  by (induction cs) (auto split: if_splits)

lemma grouped_chart_ok:
  "grouped_chart w title df key val p = (p', Inr u) \<Longrightarrow>
   key \<in> set (columns df) \<and> val \<in> set (columns df)"
  by (auto simp: grouped_chart_def seq_Inr lift_Inr dest: column_Inr)

lemma express_chart_ok:
  "express_chart w title df cs p = (p', Inr u) \<Longrightarrow> set cs \<subseteq> set (columns df)"
  by (auto simp: express_chart_def seq_Inr lift_Inr dest: express_columns_Inr)

lemma metric_ok: "metric w label sign spec v p = (p', Inr u) \<Longrightarrow> \<exists>x. v = Inr x"
  by (auto simp: metric_def seq_Inr lift_Inr)

lemma tab_clients_ok:
  assumes "tab_clients w df_demo df_cards p = (p', Inr u)"
  shows "set [''state_name'', ''client_count'', ''age_group'', ''sex''] \<subseteq> set (columns df_demo)"
    and "set [''card_type'', ''card_count''] \<subseteq> set (columns df_cards)"
  using assms
  by (auto simp: tab_clients_def seq_Inr dest!: grouped_chart_ok express_chart_ok)

lemma tab_crm_ok:
  assumes "tab_crm w df_crm_calls df_complaints p = (p', Inr u)"
  shows "set [''hour'', ''count'', ''average_time''] \<subseteq> set (columns df_crm_calls)"
    and "set [''product'', ''count''] \<subseteq> set (columns df_complaints)"
  using assms
  by (auto simp: tab_crm_def seq_Inr dest!: express_chart_ok)

lemma columns_set_column:
  "name \<in> set (columns df) \<Longrightarrow> columns (set_column df name vs) = columns df"
  by (auto simp: set_column_def split: option.splits dest: index_of_mem)

lemma rows_set_column_empty: "rows df = [] \<Longrightarrow> rows (set_column df name vs) = []"
  by (simp add: set_column_def split: option.splits)

lemma iloc0_rows_where: "iloc0 (rows_where rs ms m) = Inr r \<Longrightarrow> rs \<noteq> []"
  by (auto simp: iloc0_def rows_where_def split: list.splits)

lemma tab_trans_ok:
  assumes "tab_trans w df p = (p', Inr u)"
  shows "set [''kpi_month'', ''total_amount'', ''transaction_count'', ''average_ending_balance'']
           \<subseteq> set (columns df)"
    and "rows df \<noteq> []"
proof -
  from assms obtain raw months where
    m: "column df ''kpi_month'' = Inr raw" "collect (map (to_datetime w) raw) = Inr months"
    by (auto simp: tab_trans_def seq_Inr lift_Inr)
  then have k: "''kpi_month'' \<in> set (columns df)"
    by (auto dest: column_Inr)
  let ?df = "set_column df ''kpi_month'' (map timestamp_cell months)"
  have c: "columns ?df = columns df"
    using k by (rule columns_set_column)
  from assms m obtain latest_data where
    l: "iloc0 (rows_where (rows ?df) months (latest months)) = Inr latest_data"
    and r: "\<exists>x. row_value (columns ?df) latest_data ''total_amount'' = Inr x"
      "\<exists>x. row_value (columns ?df) latest_data ''transaction_count'' = Inr x"
      "\<exists>x. row_value (columns ?df) latest_data ''average_ending_balance'' = Inr x"
    by (auto simp: tab_trans_def seq_Inr lift_Inr Let_def dest!: metric_ok)
  from r c k show "set [''kpi_month'', ''total_amount'', ''transaction_count'', ''average_ending_balance'']
           \<subseteq> set (columns df)"
    by (auto dest: row_value_Inr)
  from l have "rows ?df \<noteq> []"
    by (rule iloc0_rows_where)
  then show "rows df \<noteq> []"
    using rows_set_column_empty by blast
qed

lemma tab_trans_empty:
  assumes "rows df = []" and "''kpi_month'' \<in> set (columns df)"
  shows "snd (tab_trans w df p) = Inl IndexError"
proof -
  from assms(2) obtain i where "index_of ''kpi_month'' (columns df) = Some i"
    by (auto dest: index_of_mem)
  with assms(1) show ?thesis
    by (simp add: tab_trans_def column_def script_defs set_column_def latest_def
        rows_where_def iloc0_def Let_def)
qed


lemma filter_states_columns: "filter_states df sel = Inr df' \<Longrightarrow> columns df' = columns df"
  by (auto simp: filter_states_def and_then_eq_Inr split: if_splits)

text \<open>What a loader returns does not depend on the page state it starts from.\<close>

lemma sqlQuery_result:
  "snd (sqlQuery w q p) = snd (sqlQuery w q p0)"
  by (simp add: sqlQuery_def script_defs Let_def split: sum.splits)

lemma cache_data_result:
  "snd (cache_data w name (sqlQuery w q) p) = snd (cache_data w name (sqlQuery w q) p0)"
  by (simp add: cache_data_def ret_def sqlQuery_result [of w q p p0] split: option.splits)

lemma loaded_results:
  "get_demographics_geo w p = (p', r) \<Longrightarrow> loaded get_demographics_geo w = r"
  "get_monthly_transactions w p = (p', r) \<Longrightarrow> loaded get_monthly_transactions w = r"
  "get_card_distribution w p = (p', r) \<Longrightarrow> loaded get_card_distribution w = r"
  "get_crm_stats w p = (p', r) \<Longrightarrow> loaded get_crm_stats w = r"
  "get_complaints_stats w p = (p', r) \<Longrightarrow> loaded get_complaints_stats w = r"
  unfolding loaded_def get_demographics_geo_def get_monthly_transactions_def
    get_card_distribution_def get_crm_stats_def get_complaints_stats_def
  by (metis cache_data_result snd_conv)+

lemma dashboard_ok:
  assumes "snd (dashboard w p) = Inr ()"
  shows "has_columns (loaded get_demographics_geo w) [''state_name'', ''client_count'', ''age_group'', ''sex'']"
    and "has_columns (loaded get_monthly_transactions w)
           [''kpi_month'', ''total_amount'', ''transaction_count'', ''average_ending_balance'']"
    and "has_rows (loaded get_monthly_transactions w)"
    and "has_columns (loaded get_card_distribution w) [''card_type'', ''card_count'']"
    and "has_columns (loaded get_crm_stats w) [''hour'', ''count'', ''average_time'']"
    and "has_columns (loaded get_complaints_stats w) [''product'', ''count'']"
proof -
  from assms obtain p' where "dashboard w p = (p', Inr ())"
    by (cases "dashboard w p") simp
  then obtain p1 p2 p3 p4 p5 p6 p7 p8 p9 df_demo df_trans df_cards df_crm_calls df_complaints
      df_demo_filtered sel u1 u2 where
    l: "get_demographics_geo w p1 = (p2, Inr df_demo)"
       "get_monthly_transactions w p2 = (p3, Inr df_trans)"
       "get_card_distribution w p3 = (p4, Inr df_cards)"
       "get_crm_stats w p4 = (p5, Inr df_crm_calls)"
       "get_complaints_stats w p5 = (p6, Inr df_complaints)"
    and f: "filter_states df_demo sel = Inr df_demo_filtered"
    and t: "tab_clients w df_demo_filtered df_cards p7 = (p8, Inr u1)"
       "tab_trans w df_trans p8 = (p9, Inr u2)"
       "tab_crm w df_crm_calls df_complaints p9 = (p', Inr ())"
    unfolding dashboard_def dashboard_body_def seq_Inr lift_Inr by blast
  note r = loaded_results(1) [OF l(1)] loaded_results(2) [OF l(2)] loaded_results(3) [OF l(3)]
    loaded_results(4) [OF l(4)] loaded_results(5) [OF l(5)]
  from tab_clients_ok [OF t(1)] filter_states_columns [OF f]
  show "has_columns (loaded get_demographics_geo w) [''state_name'', ''client_count'', ''age_group'', ''sex'']"
    and "has_columns (loaded get_card_distribution w) [''card_type'', ''card_count'']"
    by (simp_all add: r has_columns_def)
  from tab_trans_ok [OF t(2)]
  show "has_columns (loaded get_monthly_transactions w)
           [''kpi_month'', ''total_amount'', ''transaction_count'', ''average_ending_balance'']"
    and "has_rows (loaded get_monthly_transactions w)"
    by (simp_all add: r has_columns_def has_rows_def)
  from tab_crm_ok [OF t(3)]
  show "has_columns (loaded get_crm_stats w) [''hour'', ''count'', ''average_time'']"
    and "has_columns (loaded get_complaints_stats w) [''product'', ''count'']"
    by (simp_all add: r has_columns_def)
qed


lemmas dashboard_defs = dashboard_def dashboard_body_def get_demographics_geo_def
  get_monthly_transactions_def get_card_distribution_def get_crm_stats_def
  get_complaints_stats_def cache_data_def sqlQuery_def tab_clients_def tab_trans_def tab_crm_def
  grouped_chart_def express_chart_def metric_def draw_def column_def row_value_def
  set_column_def filter_states_def latest_def rows_where_def iloc0_def cell_at_def
  timestamp_cell_def assert_set_def load_dotenv_def start_page_def Let_def

lemma sample_dashboard_renders: "snd (dashboard sample_world start_page) = Inr ()"
  by (simp add: dashboard_defs script_defs sample_world_def sample_frames_def)

lemma no_months_dashboard: "snd (dashboard no_months_world start_page) = Inl IndexError"
  by (simp add: dashboard_defs script_defs no_months_world_def empty_months_def
      sample_world_def sample_frames_def)

lemma no_months_loaded: "loaded get_monthly_transactions no_months_world = Inr empty_months"
  by (simp add: loaded_def get_monthly_transactions_def cache_data_def ret_def
      no_months_world_def sample_world_def)

text \<open>
  C10. When the monthly-transactions loader returns a frame without rows, the run of the
  dashboard ends in an exception, whatever the rest of the world is; where the run gets
  as far as the transaction tab with such a frame, the exception is the \<open>IndexError\<close> of
  \<open>iloc[0]\<close> on the empty selection of the latest month. And a run of the dashboard that
  ends without an exception had all five loaders return a frame with the columns the
  page reads (the demographics with \<open>state_name\<close> among them), the monthly transactions
  with at least one row.
\<close>

theorem dashboard_needs_usable_frames:
  "(loaded get_monthly_transactions w = Inr df \<and> rows df = []
      \<longrightarrow> (\<exists>e. snd (dashboard w p) = Inl e))
   \<and> (rows df = [] \<and> ''kpi_month'' \<in> set (columns df)
      \<longrightarrow> snd (tab_trans w df p) = Inl IndexError)
   \<and> (snd (dashboard w p) = Inr ()
      \<longrightarrow> has_columns (loaded get_demographics_geo w)
             [''state_name'', ''client_count'', ''age_group'', ''sex'']
        \<and> has_columns (loaded get_monthly_transactions w)
             [''kpi_month'', ''total_amount'', ''transaction_count'', ''average_ending_balance'']
        \<and> has_rows (loaded get_monthly_transactions w)
        \<and> has_columns (loaded get_card_distribution w) [''card_type'', ''card_count'']
        \<and> has_columns (loaded get_crm_stats w) [''hour'', ''count'', ''average_time'']
        \<and> has_columns (loaded get_complaints_stats w) [''product'', ''count''])"
proof (intro conjI impI)
  assume a: "loaded get_monthly_transactions w = Inr df \<and> rows df = []"
  show "\<exists>e. snd (dashboard w p) = Inl e"
  proof (cases "snd (dashboard w p)")
    case (Inl e)
    then show ?thesis by blast
  next
    case (Inr u)
    then have "has_rows (loaded get_monthly_transactions w)"
      by (simp add: dashboard_ok(3))
    with a show ?thesis by (simp add: has_rows_def)
  qed
next
  assume "rows df = [] \<and> ''kpi_month'' \<in> set (columns df)"
  then show "snd (tab_trans w df p) = Inl IndexError"
    by (simp add: tab_trans_empty)
qed (simp_all add: dashboard_ok)

theorem dashboard_needs_usable_frames_witness:
  "(loaded get_monthly_transactions no_months_world = Inr empty_months \<and> rows empty_months = [])
   \<and> (\<exists>e. snd (dashboard no_months_world start_page) = Inl e)
   \<and> snd (dashboard no_months_world start_page) = Inl IndexError
   \<and> snd (dashboard sample_world start_page) = Inr ()
   \<and> (has_columns (loaded get_demographics_geo sample_world)
             [''state_name'', ''client_count'', ''age_group'', ''sex'']
        \<and> has_columns (loaded get_monthly_transactions sample_world)
             [''kpi_month'', ''total_amount'', ''transaction_count'', ''average_ending_balance'']
        \<and> has_rows (loaded get_monthly_transactions sample_world)
        \<and> has_columns (loaded get_card_distribution sample_world) [''card_type'', ''card_count'']
        \<and> has_columns (loaded get_crm_stats sample_world) [''hour'', ''count'', ''average_time'']
        \<and> has_columns (loaded get_complaints_stats sample_world) [''product'', ''count''])"
proof -
  have e: "loaded get_monthly_transactions no_months_world = Inr empty_months \<and> rows empty_months = []"
    by (simp add: no_months_loaded empty_months_def)
  note aborts = dashboard_needs_usable_frames
    [of no_months_world empty_months start_page, THEN conjunct1, THEN mp, OF e]
  note frames = dashboard_needs_usable_frames
    [of sample_world empty_months start_page, THEN conjunct2, THEN conjunct2, THEN mp,
     OF sample_dashboard_renders]
  show ?thesis
    by (rule conjI [OF e conjI [OF aborts conjI [OF no_months_dashboard
          conjI [OF sample_dashboard_renders frames]]]])
qed

section \<open>The time-to-live of the cache\<close>

lemma loaders_shape:
  "(name, loader) \<in> set loaders \<Longrightarrow> \<exists>q. loader = (\<lambda>w. cache_data w name (sqlQuery w q))"
  by (auto simp: loaders_def;
      (rule exI, rule ext,
       (rule get_demographics_geo_def | rule get_card_distribution_def
        | rule get_monthly_transactions_def | rule get_crm_stats_def
        | rule get_complaints_stats_def)))

lemma sqlQuery_counts:
  "query_runs (fst (sqlQuery w q p)) = query_runs p + 1"
  "executions (fst (sqlQuery w q p))
     = executions p + (case sdk_config w of Inl e \<Rightarrow> 0 | Inr host \<Rightarrow> 1)"
  by (simp_all add: sqlQuery_def script_defs query_runs_def executions_def Let_def
      split: sum.splits)

lemma sqlQuery_cached: "sqlQuery (w\<lparr>cached := c\<rparr>) q = sqlQuery w q"
  by (rule ext) (simp add: sqlQuery_def load_dotenv_def cong: option.case_cong)

lemma held_stored: "now < t + 300 \<Longrightarrow> held (store(name \<mapsto> (t, df))) now name = Some df"
  by (simp add: held_def ttl_def)

lemma held_expired: "t + 300 \<le> now \<Longrightarrow> held (store(name \<mapsto> (t, df))) now name = None"
  by (simp add: held_def ttl_def)

lemma timed_call_hit:
  "held store now name = Some df \<Longrightarrow>
   timed_call name (\<lambda>w. cache_data w name (body w)) store now w p = (store, p, Inr df)"
  by (simp add: timed_call_def cache_data_def ret_def)

lemma timed_call_miss:
  "held store now name = None \<Longrightarrow>
   timed_call name (\<lambda>w. cache_data w name (sqlQuery w q)) store now w p =
     (case snd (sqlQuery w q p) of Inl e \<Rightarrow> store | Inr df \<Rightarrow> store(name \<mapsto> (now, df)),
      fst (sqlQuery w q p), snd (sqlQuery w q p))"
  by (simp add: timed_call_def cache_data_def sqlQuery_cached Let_def)

text \<open>
  C9. Take any of the five query functions and a call of it, at time \<open>t1\<close>, that finds
  no held entry and returns a table: that call ran \<open>sqlQuery\<close> once. Then a call at any
  time earlier than \<open>t1 + 300\<close>, from any page state and whatever the warehouse would
  answer by then, returns the same table and does nothing else: the trace and the
  cache are as before, so no SQL is executed a second time. And a call at
  \<open>t1 + 300\<close> or later runs \<open>sqlQuery\<close> exactly once: one statement is sent to the
  warehouse (none when the SDK finds no configuration, which ends that one run before
  its statement), and the table it returns is what the cache holds from then on.
\<close>

theorem query_cached_for_ttl:
  assumes "(name, loader) \<in> set loaders"
    and "held store t1 name = None"
    and "timed_call name loader store t1 w1 p1 = (store1, p1', Inr df)"
  shows "query_runs p1' = query_runs p1 + 1
     \<and> (t2 < t1 + 300
        \<longrightarrow> timed_call name loader store1 t2 w2 p2 = (store1, p2, Inr df))
     \<and> (t1 + 300 \<le> t3
        \<longrightarrow> query_runs (fst (snd (timed_call name loader store1 t3 w3 p3))) = query_runs p3 + 1
          \<and> executions (fst (snd (timed_call name loader store1 t3 w3 p3)))
              = executions p3 + (case sdk_config w3 of Inl e \<Rightarrow> 0 | Inr host \<Rightarrow> 1)
          \<and> (case snd (snd (timed_call name loader store1 t3 w3 p3)) of
                Inl e \<Rightarrow> True
              | Inr df' \<Rightarrow> held (fst (timed_call name loader store1 t3 w3 p3)) t3 name = Some df'))"
proof -
  from assms(1) obtain q where l: "loader = (\<lambda>w. cache_data w name (sqlQuery w q))"
    by (auto dest: loaders_shape)
  from assms(2,3) have first: "p1' = fst (sqlQuery w1 q p1)" "snd (sqlQuery w1 q p1) = Inr df"
    and s1: "store1 = store(name \<mapsto> (t1, df))"
    by (auto simp: l timed_call_miss split: sum.splits)
  have a: "query_runs p1' = query_runs p1 + 1"
    by (simp add: first(1) sqlQuery_counts)
  have b: "timed_call name loader store1 t2 w2 p2 = (store1, p2, Inr df)" if "t2 < t1 + 300"
    unfolding l s1 using that by (simp add: timed_call_hit held_stored)
  have c: "query_runs (fst (snd (timed_call name loader store1 t3 w3 p3))) = query_runs p3 + 1
          \<and> executions (fst (snd (timed_call name loader store1 t3 w3 p3)))
              = executions p3 + (case sdk_config w3 of Inl e \<Rightarrow> 0 | Inr host \<Rightarrow> 1)
          \<and> (case snd (snd (timed_call name loader store1 t3 w3 p3)) of
                Inl e \<Rightarrow> True
              | Inr df' \<Rightarrow> held (fst (timed_call name loader store1 t3 w3 p3)) t3 name = Some df')"
    if "t1 + 300 \<le> t3"
  proof -
    from that have "held store1 t3 name = None"
      unfolding s1 by (rule held_expired)
    then show ?thesis
      by (simp add: l timed_call_miss sqlQuery_counts held_def ttl_def split: sum.splits)
  qed
  from a b c show ?thesis by blast
qed

lemma warehouse_first_call:
  "timed_call ''get_monthly_transactions'' get_monthly_transactions empty_store 1000
     warehouse_world start_page
   = (empty_store(''get_monthly_transactions'' \<mapsto> (1000, one_month)),
      fst (get_monthly_transactions (warehouse_world\<lparr>cached := held empty_store 1000\<rparr>) start_page),
      Inr one_month)"
  by (simp add: timed_call_def held_def empty_store_def get_monthly_transactions_def
      cache_data_def sqlQuery_def script_defs warehouse_world_def sample_world_def Let_def)

theorem query_cached_for_ttl_witness:
  "(''get_monthly_transactions'', get_monthly_transactions) \<in> set loaders
   \<and> held empty_store 1000 ''get_monthly_transactions'' = None
   \<and> timed_call ''get_monthly_transactions'' get_monthly_transactions empty_store 1000
        warehouse_world start_page
      = (empty_store(''get_monthly_transactions'' \<mapsto> (1000, one_month)),
         fst (get_monthly_transactions (warehouse_world\<lparr>cached := held empty_store 1000\<rparr>) start_page),
         Inr one_month)
   \<and> timed_call ''get_monthly_transactions'' get_monthly_transactions
        (empty_store(''get_monthly_transactions'' \<mapsto> (1000, one_month))) 1299
        unconfigured_world start_page
      = (empty_store(''get_monthly_transactions'' \<mapsto> (1000, one_month)), start_page, Inr one_month)
   \<and> executions (fst (snd (timed_call ''get_monthly_transactions'' get_monthly_transactions
        (empty_store(''get_monthly_transactions'' \<mapsto> (1000, one_month))) 1300
        warehouse_world start_page)))
      = executions start_page + 1"
proof -
  have m: "(''get_monthly_transactions'', get_monthly_transactions) \<in> set loaders"
    by (simp add: loaders_def)
  have h: "held empty_store 1000 ''get_monthly_transactions'' = None"
    by (simp add: held_def empty_store_def)
  note th = query_cached_for_ttl [OF m h warehouse_first_call,
      of 1299 unconfigured_world start_page 1300 warehouse_world start_page]
  have w: "(1299::nat) < 1000 + 300" "(1000::nat) + 300 \<le> 1300"
    by simp_all
  note within = th [THEN conjunct2, THEN conjunct1, THEN mp, OF w(1)]
  note after = th [THEN conjunct2, THEN conjunct2, THEN mp, OF w(2), THEN conjunct2, THEN conjunct1]
  have c: "(case sdk_config warehouse_world of Inl e \<Rightarrow> 0 | Inr host \<Rightarrow> 1) = (1::nat)"
    by (simp add: warehouse_world_def sample_world_def)
  show ?thesis
    by (rule conjI [OF m conjI [OF h conjI [OF warehouse_first_call
          conjI [OF within after [unfolded c]]]]])
qed

end
